theory Spec2Isabelle
  imports Main
begin

chapter \<open>Definitions: the embedded code\<close>

section \<open>File utilities (lib/src/clixon\_file.c)\<close>

subsection \<open>The operating system as \<open>clicon_file_copy\<close> sees it\<close>

text \<open>
  A file system resolves every path to a slot and holds, at some of the slots, a regular
  file with its bytes or a directory (\<open>None\<close>: nothing exists there). Two paths that resolve
  to the same slot name the same file: \<open>a\<close> and \<open>./a\<close>, or two hard links. File modes are
  left out: \<open>clicon_file_copy\<close> passes the source's \<open>st_mode\<close> on to \<open>open\<close>, and nothing
  stated below is about modes.
\<close>

datatype node = Regular string | Directory

record filesys =
  slot_of :: "string \<Rightarrow> nat"
  node_at :: "nat \<rightharpoonup> node"

text \<open>
  What one \<open>write(2)\<close> call returns: \<open>-1\<close> (\<open>WErr\<close>), a count smaller than the one asked
  for (\<open>WShort n\<close>: only the first \<open>n\<close> bytes reached the file), or the full count.
\<close>

datatype wres = WErr | WShort nat | WFull

text \<open>
  The system calls can fail for reasons outside the file's content (permissions, a full
  disk, a failing device). These outcomes are inputs of the model:
  \<^item> \<open>stat_denied p\<close>: \<open>stat(p)\<close> fails although \<open>p\<close> exists;
  \<^item> \<open>rd_denied p\<close>: \<open>open(p, O_RDONLY)\<close> returns \<open>-1\<close>;
  \<^item> \<open>wr_denied p\<close>: \<open>open(p, O_WRONLY | O_CREAT | O_TRUNC)\<close> returns \<open>-1\<close>;
  \<^item> \<open>read_err k\<close>: the \<open>k\<close>-th \<open>read\<close> of the loop returns \<open>-1\<close>;
  \<^item> \<open>write_res k\<close>: what the \<open>k\<close>-th \<open>write\<close> of the loop returns.
\<close>

record os_env =
  stat_denied :: "string \<Rightarrow> bool"
  rd_denied :: "string \<Rightarrow> bool"
  wr_denied :: "string \<Rightarrow> bool"
  read_err :: "nat \<Rightarrow> bool"
  write_res :: "nat \<Rightarrow> wres"

subsection \<open>\<open>clicon_file_copy\<close>\<close>

text \<open>
  The loop \<^verbatim>\<open>while((bytes = read(inF, line, sizeof(line))) > 0) if (write(ouF, line, bytes) < 0) ...\<close>
  with \<open>sizeof(line) = 512\<close>. \<open>rest\<close> is what is left to read of the source, \<open>out\<close> what the
  target holds so far, \<open>k\<close> counts the iterations. The result is \<open>(True, out)\<close> when the loop
  falls through to \<open>retval = 0\<close> and \<open>(False, out)\<close> on \<open>goto error\<close>.
  A \<open>read\<close> of a regular file that succeeds returns the next 512 bytes, or all that is left
  when that is less. A \<open>read\<close> that returns \<open>-1\<close> ends the loop exactly as end of file does (the test is
  \<open>> 0\<close>), and a \<open>write\<close> that returns a short count is not noticed (the test is \<open>< 0\<close>).
\<close>

function copy_loop :: "os_env \<Rightarrow> nat \<Rightarrow> string \<Rightarrow> string \<Rightarrow> bool \<times> string" where
  "copy_loop env k rest out =
     (if read_err env k then (True, out)
      else if rest = [] then (True, out)
      else (case write_res env k of
              WErr \<Rightarrow> (False, out)
            | WShort n \<Rightarrow> copy_loop env (Suc k) (drop 512 rest) (out @ take n (take 512 rest))
            | WFull \<Rightarrow> copy_loop env (Suc k) (drop 512 rest) (out @ take 512 rest)))"
  by pat_completeness auto
termination
  by (relation "measure (\<lambda>(env, k, rest, out). length rest)") auto

declare copy_loop.simps [simp del]

text \<open>
  What the loop does with the file open for reading: a regular file is read in chunks; on
  a directory, which \<open>open(O_RDONLY)\<close> accepts, the first \<open>read\<close> returns \<open>-1\<close> (\<open>EISDIR\<close>), so
  the loop ends at once as at end of file.
\<close>

fun copy_from :: "os_env \<Rightarrow> node option \<Rightarrow> bool \<times> string" where
  "copy_from env (Some (Regular bytes)) = copy_loop env 0 bytes []"
| "copy_from env (Some Directory) = (True, [])"
| "copy_from env None = (True, [])"

text \<open>
  \<open>clicon_file_copy src target\<close>: \<open>stat\<close> the source, open it for reading, open the target
  with \<open>O_WRONLY | O_CREAT | O_TRUNC\<close>, then run the loop. Opening the target fails when it
  is denied or the target is a directory; otherwise it creates the file if nothing is
  there and empties it at once. The result is the return value (\<open>0\<close> or \<open>-1\<close>) and the file
  system afterwards.

  The loop reads the source as it is after the target was opened: when source and target
  are different files the loop's writes never touch the source, and when they are the same
  file (the same path, or two paths of one file) the truncation has emptied it, so the first
  \<open>read\<close> returns 0 and nothing is written.
\<close>

definition clicon_file_copy :: "os_env \<Rightarrow> string \<Rightarrow> string \<Rightarrow> filesys \<Rightarrow> int \<times> filesys" where
  "clicon_file_copy env src target fs =
     (if node_at fs (slot_of fs src) = None \<or> stat_denied env src then (- 1, fs)
      else if rd_denied env src then (- 1, fs)
      else if wr_denied env target \<or> node_at fs (slot_of fs target) = Some Directory
      then (- 1, fs)
      else
        (let opened = (node_at fs)(slot_of fs target \<mapsto> Regular []) in
         case copy_from env (opened (slot_of fs src)) of
           (ok, out) \<Rightarrow>
             ((if ok then 0 else - 1),
              fs\<lparr>node_at := opened(slot_of fs target \<mapsto> Regular out)\<rparr>)))"

text \<open>
  Concrete inputs used below: a healthy system, one whose every \<open>write\<close> fails, one whose
  every \<open>read\<close> fails; and a file system in which \<open>a\<close> and \<open>./a\<close> name one regular file
  holding \<open>new\<close>, \<open>b\<close> names another holding \<open>old\<close>, \<open>d\<close> names a directory, and no other
  path names anything.
\<close>

definition os_ok :: os_env where
  "os_ok = \<lparr>stat_denied = (\<lambda>_. False), rd_denied = (\<lambda>_. False), wr_denied = (\<lambda>_. False),
            read_err = (\<lambda>_. False), write_res = (\<lambda>_. WFull)\<rparr>"

definition os_write_fails :: os_env where
  "os_write_fails = os_ok\<lparr>write_res := (\<lambda>_. WErr)\<rparr>"

definition os_read_fails :: os_env where
  "os_read_fails = os_ok\<lparr>read_err := (\<lambda>_. True)\<rparr>"

definition fs_two :: filesys where
  "fs_two = \<lparr>slot_of = (\<lambda>p. if p = ''a'' \<or> p = ''./a'' then 0 else if p = ''b'' then 1
                             else if p = ''d'' then 2 else 3),
             node_at = [0 \<mapsto> Regular ''new'', 1 \<mapsto> Regular ''old'', 2 \<mapsto> Directory]\<rparr>"

section \<open>XML trees\<close>

text \<open>
  Modelled from the spec: the XML object model (\<open>cxobj\<close>, declared in the library's
  \<open>clixon_xml.h\<close>; its implementation is missing here). Section 4.2 of the specification describes labeled,
  ordered trees; an element has a name and children, a body node holds text.
\<close>

datatype cxobj = Elmnt string "cxobj list" | Body string

fun xml_child_nr :: "cxobj \<Rightarrow> nat" where
  "xml_child_nr (Elmnt n cs) = length cs"
| "xml_child_nr (Body b) = 0"

fun xml_name :: "cxobj \<Rightarrow> string" where
  "xml_name (Elmnt n cs) = n"
| "xml_name (Body b) = ''body''"

text \<open>The C test \<^verbatim>\<open>xt==NULL || xml_child_nr(xt)==0\<close> on a tree pointer.\<close>

fun xml_is_empty :: "cxobj option \<Rightarrow> bool" where
  "xml_is_empty None = True"
| "xml_is_empty (Some t) = (xml_child_nr t = 0)"

text \<open>The canonical empty configuration \<open><config/>\<close> (section 6: content is rooted at \<open><config>\<close>).\<close>

definition empty_config :: cxobj where
  "empty_config = Elmnt ''config'' []"

text \<open>
  Modelled from the spec: \<open>xml_rootchild(xt, 0, &xt)\<close>, described by its caller as
  ``Replace parent w first child''. It fails when there is no such child.
\<close>

fun xml_rootchild :: "cxobj \<Rightarrow> cxobj option" where
  "xml_rootchild (Elmnt n (c # cs)) = Some c"
| "xml_rootchild (Elmnt n []) = None"
| "xml_rootchild (Body b) = None"

section \<open>The backend's state and its collaborators (apps/backend/backend\_startup.c)\<close>

text \<open>
  \<open>backend_startup.c\<close> drives the datastore (\<open>xmldb_*\<close>), the plugin registry and the commit
  engine (\<open>candidate_commit\<close>, \<open>startup_commit\<close>, \<open>startup_validate\<close>), whose code is
  missing here. They are modelled from the specification, sections 4.1, 4.3, 4.4 and 4.5; each
  such definition says so. The functions of \<open>backend_startup.c\<close> itself are translated from
  the C code.
\<close>

datatype operation_type = OP_MERGE | OP_REPLACE | OP_CREATE | OP_DELETE | OP_REMOVE | OP_NONE

datatype plugin_phase = CbReset | CbPreValidate | CbValidate | CbCommit | CbCommitDone | CbRollback

text \<open>
  Every call that leaves \<open>backend_startup.c\<close> is recorded, with the value it returned, in the
  order in which the calls return. \<open>PluginCb\<close> is a round of plugin callbacks of one phase,
  \<open>Validator\<close> a run of the static validator on a database.
\<close>

datatype call =
    XmldbExists string
  | XmldbCreate string
  | XmldbCopy string string
  | XmldbReset string
  | XmldbDelete string
  | XmldbGet string
  | XmldbGet0 string
  | XmldbPut string operation_type cxobj
  | PluginCb plugin_phase string
  | Validator string
  | StartupValidate string
  | StartupCommit string
  | CandidateCommit string

datatype clicon_err_category = OE_FATAL | OE_DB | OE_XML | OE_UNIX

text \<open>
  The state: the named databases (section 2: \<open>running\<close>, \<open>candidate\<close>, \<open>startup\<close>,
  \<open>failsafe\<close>, \<open>tmp\<close>; an absent name is a database that does not exist), the calls made so
  far, the errors raised with \<open>clicon_err\<close> (category and format string) and the lines logged
  with \<open>clicon_log\<close> at \<open>LOG_NOTICE\<close> by the functions of \<open>backend_startup.c\<close>.
\<close>

record backend =
  dbs :: "string \<rightharpoonup> cxobj"
  trace :: "(call \<times> int) list"
  errs :: "(clicon_err_category \<times> string) list"
  notices :: "string list"

datatype put_outcome = PutErr | PutInvalid | PutOk

text \<open>
  What the collaborators do for reasons the state does not determine (I/O failures, the
  schema, the plugins' code) is an input:
  \<^item> \<open>cbuf_new_fails\<close>: \<open>cbuf_new()\<close> returns \<open>NULL\<close>;
  \<^item> \<open>exists_err\<close>, \<open>create_fails\<close>, \<open>copy_fails\<close>, \<open>reset_fails\<close>, \<open>delete_fails\<close>,
    \<open>get_fails\<close>, \<open>get0_fails\<close>: the datastore call on these names returns an error;
  \<open>put_res\<close>: the outcome of \<open>xmldb_put\<close> of a tree into a database; \<open>ds_edit\<close>: the content
    a successful put leaves (the edit semantics of section 4.1);
  \<^item> \<open>valid\<close>: the static validator of section 4.3; \<open>validate_err\<close>: validation ends in an
    error rather than a verdict; \<open>validate_out\<close>: the tree \<open>startup_validate\<close> hands back
    (``possibly upgraded'', says its caller), if any;
  \<^item> \<open>plugin_ok\<close>: whether the plugins accept a tree in a phase; \<open>plugin_reset\<close>: what the
    reset hooks leave in the database they are given (\<open>None\<close>: a hook failed);
  \<^item> \<open>commit_err\<close>: the commit engine ends in an error before changing anything;
  \<^item> \<open>file_open_fails\<close>, \<open>xml_parse_file\<close>: opening and parsing the \<open>-c\<close> file.
\<close>

record backend_env =
  cbuf_new_fails :: bool
  exists_err :: "string \<Rightarrow> bool"
  create_fails :: "string \<Rightarrow> bool"
  copy_fails :: "string \<Rightarrow> string \<Rightarrow> bool"
  reset_fails :: "string \<Rightarrow> bool"
  delete_fails :: "string \<Rightarrow> bool"
  get_fails :: "string \<Rightarrow> bool"
  get0_fails :: "string \<Rightarrow> bool"
  put_res :: "string \<Rightarrow> cxobj \<Rightarrow> put_outcome"
  ds_edit :: "operation_type \<Rightarrow> cxobj \<Rightarrow> cxobj \<Rightarrow> cxobj"
  valid :: "cxobj \<Rightarrow> bool"
  validate_err :: "string \<Rightarrow> bool"
  validate_out :: "cxobj \<Rightarrow> cxobj option"
  plugin_ok :: "plugin_phase \<Rightarrow> cxobj \<Rightarrow> bool"
  plugin_reset :: "cxobj \<Rightarrow> cxobj option"
  commit_err :: "string \<Rightarrow> bool"
  file_open_fails :: "string \<Rightarrow> bool"
  xml_parse_file :: "string \<Rightarrow> cxobj option"

definition called :: "call \<Rightarrow> int \<Rightarrow> backend \<Rightarrow> backend" where
  "called c r s = s\<lparr>trace := trace s @ [(c, r)]\<rparr>"

definition clicon_err :: "clicon_err_category \<Rightarrow> string \<Rightarrow> backend \<Rightarrow> backend" where
  "clicon_err cat msg s = s\<lparr>errs := errs s @ [(cat, msg)]\<rparr>"

definition clicon_log_notice :: "string \<Rightarrow> backend \<Rightarrow> backend" where
  "clicon_log_notice msg s = s\<lparr>notices := notices s @ [msg]\<rparr>"

text \<open>The calls made between two states, and the content of a database (empty if absent).\<close>

definition new_calls :: "backend \<Rightarrow> backend \<Rightarrow> (call \<times> int) list" where
  "new_calls s s' = drop (length (trace s)) (trace s')"

definition db_content :: "backend \<Rightarrow> string \<Rightarrow> cxobj" where
  "db_content s db = (case dbs s db of None \<Rightarrow> empty_config | Some t \<Rightarrow> t)"

subsection \<open>The datastore layer (specification, section 4.1)\<close>

text \<open>
  Modelled from the spec: \<open>xmldb_exists\<close>. ``\<open>exists(db) \<rightarrow> {absent, present}\<close> --
  non-mutating.'' The C callers read 1 as present, 0 as absent and a negative value as an
  error.
\<close>

definition xmldb_exists :: "backend_env \<Rightarrow> string \<Rightarrow> backend \<Rightarrow> int \<times> backend" where
  "xmldb_exists env db s =
     (let r = (if exists_err env db then - 1 else if dbs s db = None then 0 else 1)
      in (r, called (XmldbExists db) r s))"

text \<open>
  Modelled from the spec: \<open>xmldb_create\<close>. ``\<open>create(db)\<close> -- idempotent creation of an
  empty, schema-valid database; fails with \<open>IoError\<close> if persistence backing cannot be
  written.''
\<close>

definition xmldb_create :: "backend_env \<Rightarrow> string \<Rightarrow> backend \<Rightarrow> int \<times> backend" where
  "xmldb_create env db s =
     (if create_fails env db then (- 1, called (XmldbCreate db) (- 1) s)
      else (0, called (XmldbCreate db) 0
                 (if dbs s db = None then s\<lparr>dbs := (dbs s)(db \<mapsto> empty_config)\<rparr> else s)))"

text \<open>
  Modelled from the spec: \<open>xmldb_db_reset\<close>. ``\<open>reset(db)\<close> -- truncates content to the
  canonical empty configuration.''
\<close>

definition xmldb_db_reset :: "backend_env \<Rightarrow> string \<Rightarrow> backend \<Rightarrow> int \<times> backend" where
  "xmldb_db_reset env db s =
     (if reset_fails env db then (- 1, called (XmldbReset db) (- 1) s)
      else (0, called (XmldbReset db) 0 (s\<lparr>dbs := (dbs s)(db \<mapsto> empty_config)\<rparr>)))"

text \<open>
  Modelled from the spec: \<open>xmldb_copy\<close>. ``\<open>copy(src, dst)\<close> -- atomic replacement of \<open>dst\<close>
  with the content of \<open>src\<close>; on failure \<open>dst\<close> is unchanged.'' A source that does not exist
  cannot be copied: the call fails.
\<close>

definition xmldb_copy :: "backend_env \<Rightarrow> string \<Rightarrow> string \<Rightarrow> backend \<Rightarrow> int \<times> backend" where
  "xmldb_copy env src dst s =
     (case dbs s src of
        None \<Rightarrow> (- 1, called (XmldbCopy src dst) (- 1) s)
      | Some t \<Rightarrow>
          if copy_fails env src dst then (- 1, called (XmldbCopy src dst) (- 1) s)
          else (0, called (XmldbCopy src dst) 0 (s\<lparr>dbs := (dbs s)(dst \<mapsto> t)\<rparr>)))"

text \<open>
  Modelled from the spec: \<open>xmldb_delete\<close>. ``\<open>delete(db)\<close> -- removes the database; absence
  is not an error.'' The C caller tells three outcomes apart: 0, non-zero with
  \<open>errno = ENOENT\<close>, and non-zero with another \<open>errno\<close>.
\<close>

datatype delete_outcome = DelOk | DelENOENT | DelErr

definition xmldb_delete :: "backend_env \<Rightarrow> string \<Rightarrow> backend \<Rightarrow> delete_outcome \<times> backend" where
  "xmldb_delete env db s =
     (if delete_fails env db then (DelErr, called (XmldbDelete db) (- 1) s)
      else if dbs s db = None then (DelENOENT, called (XmldbDelete db) (- 1) s)
      else (DelOk, called (XmldbDelete db) 0 (s\<lparr>dbs := (dbs s)(db := None)\<rparr>)))"

text \<open>
  Modelled from the spec: \<open>xmldb_get\<close> and \<open>xmldb_get0\<close>. ``\<open>read(db, xpath_filter?) \<rightarrow>
  ConfigTree\<close> -- returns the configured subtree (empty tree if absent root).'' Both are
  called here without a filter.
\<close>

definition xmldb_get :: "backend_env \<Rightarrow> string \<Rightarrow> backend \<Rightarrow> int \<times> cxobj option \<times> backend" where
  "xmldb_get env db s =
     (if get_fails env db then (- 1, None, called (XmldbGet db) (- 1) s)
      else (0, Some (db_content s db), called (XmldbGet db) 0 s))"

definition xmldb_get0 :: "backend_env \<Rightarrow> string \<Rightarrow> backend \<Rightarrow> int \<times> cxobj option \<times> backend" where
  "xmldb_get0 env db s =
     (if get0_fails env db then (- 1, None, called (XmldbGet0 db) (- 1) s)
      else (0, Some (db_content s db), called (XmldbGet0 db) 0 s))"

text \<open>
  Modelled from the spec: \<open>xmldb_put\<close>. ``\<open>put(db, op, tree, actor_id) \<rightarrow> {ok,
  validation_failed(errdoc)}\<close>''; the C callers read 1 as OK, 0 as validation failed and a
  negative value as an error. Only a successful put changes the database.
\<close>

definition xmldb_put ::
  "backend_env \<Rightarrow> string \<Rightarrow> operation_type \<Rightarrow> cxobj \<Rightarrow> backend \<Rightarrow> int \<times> backend" where
  "xmldb_put env db op xt s =
     (case put_res env db xt of
        PutErr \<Rightarrow> (- 1, called (XmldbPut db op xt) (- 1) s)
      | PutInvalid \<Rightarrow> (0, called (XmldbPut db op xt) 0 s)
      | PutOk \<Rightarrow>
          (1, called (XmldbPut db op xt) 1
                (s\<lparr>dbs := (dbs s)(db \<mapsto> ds_edit env op (db_content s db) xt)\<rparr>)))"

text \<open>The value \<open>xmldb_put\<close> returns for each outcome.\<close>

fun put_code :: "put_outcome \<Rightarrow> int" where
  "put_code PutErr = - 1"
| "put_code PutInvalid = 0"
| "put_code PutOk = 1"

subsection \<open>Plugins, validation and the commit engine (specification, sections 4.3 to 4.6)\<close>

text \<open>
  Modelled from the spec: \<open>clixon_plugin_reset\<close>. Section 4.6, step 5: ``invoke each
  plugin's \<open>reset(tmp)\<close> hook''; the hooks may put extra XML into the database they are given.
\<close>

definition clixon_plugin_reset :: "backend_env \<Rightarrow> string \<Rightarrow> backend \<Rightarrow> int \<times> backend" where
  "clixon_plugin_reset env db s =
     (case plugin_reset env (db_content s db) of
        None \<Rightarrow> (- 1, called (PluginCb CbReset db) (- 1) s)
      | Some t \<Rightarrow> (0, called (PluginCb CbReset db) 0 (s\<lparr>dbs := (dbs s)(db \<mapsto> t)\<rparr>)))"

text \<open>
  Modelled from the spec: \<open>startup_validate\<close>. Section 4.6, step 5 (``if \<open>tmp\<close> is non-empty,
  validate it'') and scenario 6 (``only the static Validator ran on \<open>tmp\<close>''): the static
  validator of section 4.3 runs on the database's content; no plugin callback fires. The C
  caller reads 1 as valid, 0 as validation failed, a negative value as an error, and gets
  the validated tree back.
\<close>

definition startup_validate ::
  "backend_env \<Rightarrow> string \<Rightarrow> backend \<Rightarrow> int \<times> cxobj option \<times> backend" where
  "startup_validate env db s =
     (if validate_err env db then (- 1, None, called (StartupValidate db) (- 1) s)
      else if \<not> valid env (db_content s db)
      then (0, None, called (StartupValidate db) 0 (called (Validator db) 0 s))
      else (1, validate_out env (db_content s db),
            called (StartupValidate db) 1 (called (Validator db) 1 s)))"

text \<open>
  Modelled from the spec: the commit state machine of section 4.5, from a source database
  into \<open>running\<close>. A source that cannot be read, or an internal error, ends in \<open>-1\<close> with no
  mutation. An empty diff returns OK at once and does not rewrite the target. Then
  pre-validate (a rejection aborts), the static validator and the plugins' validate (the
  first rejection aborts): these end in 0, validation failed, with no mutation. Then the
  plugins' commit: on failure the rollback callbacks run, the target is as before, and the
  result is \<open>-1\<close>. At last the source's content is published to the target and
  commit-done fires.
\<close>

definition txe_commit :: "backend_env \<Rightarrow> string \<Rightarrow> backend \<Rightarrow> int \<times> backend" where
  "txe_commit env src s =
     (case dbs s src of
        None \<Rightarrow> (- 1, s)
      | Some t \<Rightarrow>
          if commit_err env src then (- 1, s)
          else if dbs s ''running'' = Some t then (1, s)
          else if \<not> plugin_ok env CbPreValidate t
          then (0, called (PluginCb CbPreValidate src) (- 1) s)
          else
            (let s1 = called (PluginCb CbPreValidate src) 0 s in
             if \<not> valid env t then (0, called (Validator src) 0 s1)
             else
               (let s2 = called (Validator src) 1 s1 in
                if \<not> plugin_ok env CbValidate t
                then (0, called (PluginCb CbValidate src) (- 1) s2)
                else
                  (let s3 = called (PluginCb CbValidate src) 0 s2 in
                   if \<not> plugin_ok env CbCommit t
                   then (- 1, called (PluginCb CbRollback src) 0
                                (called (PluginCb CbCommit src) (- 1) s3))
                   else
                     (let s4 = called (PluginCb CbCommit src) 0 s3;
                          s5 = s4\<lparr>dbs := (dbs s4)(''running'' \<mapsto> t)\<rparr>
                      in (1, called (PluginCb CbCommitDone src) 0 s5))))))"

text \<open>
  Modelled from the spec: \<open>candidate_commit\<close> and \<open>startup_commit\<close> (in
  \<open>backend_commit.c\<close>) are the two entries of the commit engine: section 4.5 for the first,
  section 4.6, step 3 (``Invoke TXE with source\<open>\<rightarrow>\<close>running'') for the second.
\<close>

definition candidate_commit :: "backend_env \<Rightarrow> string \<Rightarrow> backend \<Rightarrow> int \<times> backend" where
  "candidate_commit env db s =
     (case txe_commit env db s of (r, s') \<Rightarrow> (r, called (CandidateCommit db) r s'))"

definition startup_commit :: "backend_env \<Rightarrow> string \<Rightarrow> backend \<Rightarrow> int \<times> backend" where
  "startup_commit env db s =
     (case txe_commit env db s of (r, s') \<Rightarrow> (r, called (StartupCommit db) r s'))"

text \<open>
  Two classes of calls. \<open>engine_call\<close>: what the commit engine does on the way (plugin
  callbacks of the commit phases, the static validator). \<open>commit_callback\<close>: a plugin
  callback of a commit phase (pre-validate, validate, commit, commit-done, rollback) or
  an entry into the commit engine, which fires them.
\<close>

fun engine_call :: "call \<Rightarrow> bool" where
  "engine_call (PluginCb ph db) = (ph \<noteq> CbReset)"
| "engine_call (Validator db) = True"
| "engine_call _ = False"

fun commit_callback :: "call \<Rightarrow> bool" where
  "commit_callback (PluginCb ph db) = (ph \<noteq> CbReset)"
| "commit_callback (CandidateCommit db) = True"
| "commit_callback (StartupCommit db) = True"
| "commit_callback _ = False"

text \<open>\<open>quiet s s'\<close>: from \<open>s\<close> to \<open>s'\<close> calls were only added, none of them a \<open>commit_callback\<close>.\<close>

definition quiet :: "backend \<Rightarrow> backend \<Rightarrow> bool" where
  "quiet s s' = (\<exists>evs. trace s' = trace s @ evs \<and> (\<forall>e \<in> set evs. \<not> commit_callback (fst e)))"

subsection \<open>The functions of \<open>backend_startup.c\<close>\<close>

text \<open>
  \<open>db_merge\<close>: ``Merge db1 into db2 without commit''. It reads \<open>db1\<close> with \<open>xmldb_get0\<close> and
  puts the tree into \<open>db2\<close> with \<open>OP_MERGE\<close>; its result is that of \<open>xmldb_put\<close>. (A
  successful \<open>xmldb_get0\<close> hands a tree back; were it \<open>NULL\<close>, the put would get \<open>NULL\<close>, which
  the model renders as the empty configuration.)
\<close>

definition db_merge :: "backend_env \<Rightarrow> string \<Rightarrow> string \<Rightarrow> backend \<Rightarrow> int \<times> backend" where
  "db_merge env db1 db2 s =
     (case xmldb_get0 env db1 s of
        (r, xt, s1) \<Rightarrow>
          if r < 0 then (- 1, s1)
          else xmldb_put env db2 OP_MERGE (case xt of None \<Rightarrow> empty_config | Some t \<Rightarrow> t) s1)"

text \<open>
  \<open>startup_mode_startup\<close>: commit the startup configuration \<open>db\<close> into \<open>running\<close>. The name
  \<open>running\<close> itself is refused first; then a database that does not exist is created empty
  (a failing \<open>xmldb_create\<close> returns \<open>-1\<close> at once) and \<open>startup_commit\<close> decides the result:
  \<open>-1\<close> error, \<open>0\<close> validation failed, \<open>1\<close> OK.
\<close>

definition startup_mode_startup :: "backend_env \<Rightarrow> string \<Rightarrow> backend \<Rightarrow> int \<times> backend" where
  "startup_mode_startup env db s =
     (if db = ''running'' then (- 1, clicon_err OE_FATAL ''Invalid startup db: %s'' s)
      else
        (case xmldb_exists env db s of
           (r1, s1) \<Rightarrow>
             (case (if r1 \<noteq> 1 then xmldb_create env db s1 else (0, s1)) of
                (r2, s2) \<Rightarrow>
                  if r1 \<noteq> 1 \<and> r2 < 0 then (- 1, s2)
                  else
                    (case startup_commit env db s2 of
                       (ret, s3) \<Rightarrow>
                         if ret < 0 then (- 1, s3)
                         else if ret = 0 then (0, s3)
                         else (1, s3)))))"

text \<open>
  \<open>load_extraxml\<close>: merge the XML of a file into a database. No file name: \<open>1\<close> at once.
  Otherwise open and parse the file, replace the parsed top node by its first child, and
  put the tree into the database with \<open>OP_MERGE\<close>.
\<close>

definition load_extraxml ::
  "backend_env \<Rightarrow> string option \<Rightarrow> string \<Rightarrow> backend \<Rightarrow> int \<times> backend" where
  "load_extraxml env filename db s =
     (case filename of
        None \<Rightarrow> (1, s)
      | Some f \<Rightarrow>
          if file_open_fails env f then (- 1, clicon_err OE_UNIX ''open(%s)'' s)
          else
            (case xml_parse_file env f of
               None \<Rightarrow> (- 1, s)
             | Some xt \<Rightarrow>
                 (case xml_rootchild xt of
                    None \<Rightarrow> (- 1, s)
                  | Some xt' \<Rightarrow> xmldb_put env db OP_MERGE xt' s)))"

text \<open>
  \<open>startup_extraxml\<close> is translated in three parts. The first (source lines 225 to 238):
  clear \<open>tmp\<close>, run the plugins' reset hooks on it, and load the optional file into it. The
  result is \<open>1\<close> when all of this succeeded, and otherwise the value \<open>startup_extraxml\<close>
  leaves in \<open>retval\<close> (\<open>-1\<close> by \<open>goto done\<close>, \<open>0\<close> by \<open>goto fail\<close>).
\<close>

definition extraxml_load :: "backend_env \<Rightarrow> string option \<Rightarrow> backend \<Rightarrow> int \<times> backend" where
  "extraxml_load env file s =
     (case xmldb_db_reset env ''tmp'' s of
        (r1, s1) \<Rightarrow>
          if r1 < 0 then (- 1, s1)
          else
            (case clixon_plugin_reset env ''tmp'' s1 of
               (r2, s2) \<Rightarrow>
                 if r2 < 0 then (- 1, s2)
                 else
                   (case file of
                      None \<Rightarrow> (1, s2)
                    | Some f \<Rightarrow>
                        (case load_extraxml env (Some f) ''tmp'' s2 of
                           (r3, s3) \<Rightarrow>
                             if r3 < 0 then (- 1, s3)
                             else if r3 = 0 then (0, s3)
                             else (1, s3)))))"

text \<open>
  The second part (source lines 244 to 263): read \<open>tmp\<close> back; if it has no children, that
  is all (\<open>goto ok\<close>). Otherwise validate it, and if the validated tree has children merge
  \<open>tmp\<close> into \<open>running\<close> with \<open>db_merge\<close>. Both an error and a validation failure of the
  merge go to \<open>fail\<close> (the result is \<open>0\<close>).
\<close>

definition extraxml_merge :: "backend_env \<Rightarrow> backend \<Rightarrow> int \<times> backend" where
  "extraxml_merge env s3 =
     (case xmldb_get env ''tmp'' s3 of
        (r4, xt0, s4) \<Rightarrow>
          if r4 < 0 then (- 1, s4)
          else if xml_is_empty xt0 then (1, s4)
          else
            (case startup_validate env ''tmp'' s4 of
               (r5, xt, s5) \<Rightarrow>
                 if r5 < 0 then (- 1, s5)
                 else if r5 = 0 then (0, s5)
                 else if xml_is_empty xt then (1, s5)
                 else
                   (case db_merge env ''tmp'' ''running'' s5 of
                      (r6, s6) \<Rightarrow>
                        if r6 < 0 then (0, s6)
                        else if r6 = 0 then (0, s6)
                        else (1, s6))))"

definition startup_extraxml_body ::
  "backend_env \<Rightarrow> string option \<Rightarrow> backend \<Rightarrow> int \<times> backend" where
  "startup_extraxml_body env file s =
     (case extraxml_load env file s of
        (r, s3) \<Rightarrow> if r = 1 then extraxml_merge env s3 else (r, s3))"

text \<open>
  The third part is the label \<open>done\<close>, which every path goes through: \<open>tmp\<close> is deleted,
  and the result becomes \<open>-1\<close> when that fails with an \<open>errno\<close> other than \<open>ENOENT\<close>.
\<close>

definition startup_extraxml :: "backend_env \<Rightarrow> string option \<Rightarrow> backend \<Rightarrow> int \<times> backend" where
  "startup_extraxml env file s =
     (case startup_extraxml_body env file s of
        (retval, s1) \<Rightarrow>
          (case xmldb_delete env ''tmp'' s1 of
             (d, s2) \<Rightarrow> if d = DelErr then (- 1, s2) else (retval, s2)))"

text \<open>
  \<open>startup_failsafe\<close>: ``Reset running and start in failsafe mode. If no failsafe then
  quit.'' The result is \<open>0\<close> when the failsafe configuration was committed and \<open>-1\<close>
  otherwise.
\<close>

definition startup_failsafe :: "backend_env \<Rightarrow> backend \<Rightarrow> int \<times> backend" where
  "startup_failsafe env s =
     (if cbuf_new_fails env then (- 1, clicon_err OE_XML ''cbuf_new'' s)
      else
        (case xmldb_exists env ''failsafe'' s of
           (ret0, s1) \<Rightarrow>
             if ret0 < 0 then (- 1, s1)
             else if ret0 = 0
             then (- 1, clicon_err OE_DB
                          ''Startup failed and no Failsafe database found, exiting'' s1)
             else
               (case xmldb_copy env ''running'' ''tmp'' s1 of
                  (r2, s2) \<Rightarrow>
                    if r2 < 0 then (- 1, s2)
                    else
                      (case xmldb_db_reset env ''running'' s2 of
                         (r3, s3) \<Rightarrow>
                           if r3 < 0 then (- 1, s3)
                           else
                             (case candidate_commit env ''failsafe'' s3 of
                                (ret, s4) \<Rightarrow>
                                  (case (if ret \<noteq> 1 then xmldb_copy env ''tmp'' ''running'' s4
                                         else (0, s4)) of
                                     (r5, s5) \<Rightarrow>
                                       if ret \<noteq> 1 \<and> r5 < 0 then (- 1, s5)
                                       else if ret < 0 then (- 1, s5)
                                       else if ret = 0
                                       then (- 1, clicon_err OE_DB
                                         ''Startup failed, Failsafe database validation failed %s'' s5)
                                       else (0, clicon_log_notice
                                         ''Startup failed, Failsafe database loaded '' s5)))))))"

text \<open>
  The state in which \<open>startup_failsafe\<close> calls \<open>candidate_commit\<close>, when it gets that far:
  after \<open>xmldb_exists\<close>, the backup copy of \<open>running\<close> to \<open>tmp\<close> and the reset of \<open>running\<close>.
\<close>

definition failsafe_commit_state :: "backend_env \<Rightarrow> backend \<Rightarrow> backend" where
  "failsafe_commit_state env s =
     snd (xmldb_db_reset env ''running''
            (snd (xmldb_copy env ''running'' ''tmp'' (snd (xmldb_exists env ''failsafe'' s)))))"

section \<open>RESTCONF error replies (apps/restconf/restconf\_err.c, restconf\_main.c)\<close>

subsection \<open>XML access and NETCONF error documents\<close>

text \<open>
  Modelled from the spec: the XML accessors of the library (\<open>xpath_first\<close>, \<open>xml_body\<close>,
  \<open>xml_name_set\<close>; their implementation is missing here) that \<open>restconf_err.c\<close> uses. Section 4.2: ``XPath evaluation returns the first match''; the
  paths used are a single child name (\<open>rpc-error\<close>, \<open>error-tag\<close>, \<open>error-message\<close>), so
  \<open>xpath_first x name\<close> is the first child element of \<open>x\<close> with that name. \<open>xml_body\<close> is the
  text of an element (its first body child), \<open>NULL\<close> if it has none; \<open>xml_name_set\<close> renames
  an element.
\<close>

fun named :: "string \<Rightarrow> cxobj \<Rightarrow> bool" where
  "named n (Elmnt m cs) = (m = n)"
| "named n (Body b) = False"

fun xml_children :: "cxobj \<Rightarrow> cxobj list" where
  "xml_children (Elmnt n cs) = cs"
| "xml_children (Body b) = []"

definition xpath_first :: "cxobj \<Rightarrow> string \<Rightarrow> cxobj option" where
  "xpath_first x name = List.find (named name) (xml_children x)"

fun body_text :: "cxobj list \<Rightarrow> string option" where
  "body_text [] = None"
| "body_text (Body b # cs) = Some b"
| "body_text (Elmnt n ds # cs) = body_text cs"

definition xml_body :: "cxobj \<Rightarrow> string option" where
  "xml_body x = body_text (xml_children x)"

fun xml_name_set :: "string \<Rightarrow> cxobj \<Rightarrow> cxobj" where
  "xml_name_set n (Elmnt m cs) = Elmnt n cs"
| "xml_name_set n (Body b) = Body b"

text \<open>
  Modelled from the spec: the old two-argument \<open>xpath_first(x, "//name")\<close> that
  \<open>restconf_main.c\<close> calls: the first element of that name among \<open>x\<close> and its descendants,
  in document order.
\<close>

fun xml_descendants :: "cxobj \<Rightarrow> cxobj list" where
  "xml_descendants (Body b) = [Body b]"
| "xml_descendants (Elmnt n cs) = Elmnt n cs # concat (map xml_descendants cs)"

definition xpath_first_desc :: "cxobj \<Rightarrow> string \<Rightarrow> cxobj option" where
  "xpath_first_desc x name = List.find (named name) (xml_descendants x)"

text \<open>
  Modelled from the spec: the NETCONF error documents built by \<open>netconf_*_xml\<close> (in the
  library's \<open>clixon_netconf_lib.c\<close>). Section 6: a reply is \<open><rpc-reply>\<close> containing
  \<open><rpc-error>\<close> children with the fields \<open>error-type\<close>, \<open>error-tag\<close>, \<open>error-severity\<close>, ...,
  \<open>error-message\<close>; the tag is the one the function's name spells.
\<close>

definition netconf_rpc_error :: "string \<Rightarrow> string \<Rightarrow> string \<Rightarrow> cxobj" where
  "netconf_rpc_error tag type msg =
     Elmnt ''rpc-reply''
       [Elmnt ''rpc-error''
          [Elmnt ''error-type'' [Body type],
           Elmnt ''error-tag'' [Body tag],
           Elmnt ''error-severity'' [Body ''error''],
           Elmnt ''error-message'' [Body msg]]]"

text \<open>
  Modelled from the spec: \<open>restconf_err2code\<close> (in \<open>restconf_lib.c\<close>), by the table of section
  6, ``HTTP-to-error mapping''; a tag that is not in the table, or no tag, gives \<open>-1\<close>. The
  functions below take the mapping as an input (\<open>err2code\<close>); this table is one instance.
\<close>

definition restconf_err2code :: "string option \<Rightarrow> int" where
  "restconf_err2code tag =
     (if tag = Some ''invalid-value'' then 400
      else if tag = Some ''unauthenticated'' then 401
      else if tag = Some ''access-denied'' then 403
      else if tag = Some ''not-found'' then 404
      else if tag = Some ''method-not-allowed'' then 405
      else if tag = Some ''not-acceptable'' then 406
      else if tag = Some ''in-use'' then 409
      else if tag = Some ''data-exists'' then 409
      else if tag = Some ''lock-denied'' then 412
      else if tag = Some ''unsupported-media-type'' then 415
      else if tag = Some ''operation-failed'' then 500
      else if tag = Some ''not-implemented'' then 501
      else - 1)"

subsection \<open>The HTTP request and the environment\<close>

datatype restconf_media = YANG_DATA_JSON | YANG_DATA_XML | MEDIA_OTHER

text \<open>
  What has been sent on a request so far: the headers set with \<open>restconf_reply_header\<close> and
  the replies sent with \<open>restconf_reply_send\<close>, each a status code and a body (\<open>None\<close> for
  \<open>NULL\<close>).
\<close>

record http_req =
  headers :: "(string \<times> string) list"
  replies :: "(int \<times> string option) list"

text \<open>
  Inputs that the code does not determine: allocation failures (\<open>cbuf_new\<close>, the
  \<open>netconf_*_xml\<close> builders), failures of \<open>xml_name_set\<close>, of setting a header and of sending,
  the text \<open>netconf_err2cb\<close> makes of an error tree, the serialisers \<open>clicon_xml2cbuf\<close> and
  \<open>xml2json_cbuf\<close> (\<open>None\<close>: they fail), the media type's name, and the tag-to-status
  mapping \<open>restconf_err2code\<close>, which is given the body of the error tag (\<open>None\<close>: \<open>NULL\<close>).
\<close>

record rest_env =
  rc_cbuf_new_fails :: bool
  netconf_xml_fails :: bool
  name_set_fails :: bool
  header_fails :: bool
  send_fails :: bool
  err2cb :: "cxobj \<Rightarrow> string option"
  xml2cbuf :: "cxobj \<Rightarrow> bool \<Rightarrow> string option"
  xml2json :: "cxobj \<Rightarrow> bool \<Rightarrow> string option"
  media_int2str :: "restconf_media \<Rightarrow> string"
  err2code :: "string option \<Rightarrow> int"

text \<open>
  Modelled from the spec: \<open>restconf_reply_header\<close> and \<open>restconf_reply_send\<close> (in
  \<open>restconf_api.c\<close>): the first adds a header to the reply, the second sends a reply with
  a status code and a body. The specification's design notes count the calls of the second as
  replies (``sends two replies'').
\<close>

definition restconf_reply_header ::
  "rest_env \<Rightarrow> string \<Rightarrow> string \<Rightarrow> http_req \<Rightarrow> int \<times> http_req" where
  "restconf_reply_header env name val req =
     (if header_fails env then (- 1, req)
      else (0, req\<lparr>headers := headers req @ [(name, val)]\<rparr>))"

definition restconf_reply_send ::
  "rest_env \<Rightarrow> int \<Rightarrow> string option \<Rightarrow> http_req \<Rightarrow> int \<times> http_req" where
  "restconf_reply_send env code body req =
     (if send_fails env then (- 1, req)
      else (0, req\<lparr>replies := replies req @ [(code, body)]\<rparr>))"

text \<open>
  Modelled from the spec: the builders \<open>netconf_operation_not_supported_xml\<close>,
  \<open>netconf_operation_failed_xml\<close> and \<open>netconf_access_denied_xml\<close>: each returns the error
  document of its tag (section 6), or fails.
\<close>

definition netconf_operation_not_supported_xml ::
  "rest_env \<Rightarrow> string \<Rightarrow> string \<Rightarrow> cxobj option" where
  "netconf_operation_not_supported_xml env type msg =
     (if netconf_xml_fails env then None
      else Some (netconf_rpc_error ''operation-not-supported'' type msg))"

definition netconf_operation_failed_xml :: "rest_env \<Rightarrow> string \<Rightarrow> string \<Rightarrow> cxobj option" where
  "netconf_operation_failed_xml env type msg =
     (if netconf_xml_fails env then None
      else Some (netconf_rpc_error ''operation-failed'' type msg))"

definition netconf_access_denied_xml :: "rest_env \<Rightarrow> string \<Rightarrow> string \<Rightarrow> cxobj option" where
  "netconf_access_denied_xml env type msg =
     (if netconf_xml_fails env then None
      else Some (netconf_rpc_error ''access-denied'' type msg))"

subsection \<open>\<open>api_return_err\<close> and \<open>api_return_err0\<close>\<close>

text \<open>
  The first block of \<open>api_return_err\<close>: an error that is not an \<open><rpc-error>\<close> with an
  \<open><error-tag>\<close> is replaced by an internal \<open>operation-failed\<close> error. The result is the
  error to report and its tag element; \<open>None\<close> stands for \<open>goto done\<close>.
\<close>

definition checked_error :: "rest_env \<Rightarrow> cxobj \<Rightarrow> (cxobj \<times> cxobj) option" where
  "checked_error env xerr =
     (case (if xml_name xerr \<noteq> ''rpc-error'' then None else xpath_first xerr ''error-tag'') of
        Some xtag \<Rightarrow> Some (xerr, xtag)
      | None \<Rightarrow>
          if rc_cbuf_new_fails env then None
          else
            (case err2cb env xerr of
               None \<Rightarrow> None
             | Some txt \<Rightarrow>
                 (case netconf_operation_failed_xml env ''application''
                         (''Internal error, system returned invalid error message: '' @ txt) of
                    None \<Rightarrow> None
                  | Some xerr2 \<Rightarrow>
                      (case xpath_first xerr2 ''rpc-error'' of
                         None \<Rightarrow> None
                       | Some xe \<Rightarrow>
                           (case xpath_first xe ''error-tag'' of
                              None \<Rightarrow> None
                            | Some xtag \<Rightarrow> Some (xe, xtag))))))"

text \<open>
  The status code: \<open>code0\<close> if it is not 0; otherwise the code \<open>restconf_err2code\<close> gives the
  tag, 500 if that is negative, and for 403 the special case: 401 when the error has an
  \<open><error-message>\<close> whose body is \<open>The requested URL was unauthorized\<close>.
\<close>

definition unauthorized_msg :: string where
  "unauthorized_msg = ''The requested URL was unauthorized''"

definition error_code :: "rest_env \<Rightarrow> cxobj \<Rightarrow> cxobj \<Rightarrow> int \<Rightarrow> int" where
  "error_code env xerr xtag code0 =
     (if code0 \<noteq> 0 then code0
      else
        (let code = (if err2code env (xml_body xtag) < 0 then 500
                     else err2code env (xml_body xtag))
         in if code = 403
            then (case xpath_first xerr ''error-message'' of
                    None \<Rightarrow> code
                  | Some xmsg \<Rightarrow>
                      (case xml_body xmsg of
                         None \<Rightarrow> code
                       | Some mb \<Rightarrow> if mb = unauthorized_msg then 401 else code))
            else code))"

text \<open>
  The body, by media and \<open>pretty\<close>: the serialised error between the fixed opening and
  closing texts of the \<open>switch\<close>. \<open>None\<close> stands for \<open>goto done\<close> (a serialiser failed, or the
  media is neither XML nor JSON).
\<close>

definition errors_open :: string where
  "errors_open = ''<errors xmlns='' @ [CHR 0x22] @ ''urn:ietf:params:xml:ns:yang:ietf-restconf''
                 @ [CHR 0x22] @ ''>''"

definition error_body :: "rest_env \<Rightarrow> cxobj \<Rightarrow> bool \<Rightarrow> restconf_media \<Rightarrow> string option" where
  "error_body env xerr pretty media =
     (case media of
        YANG_DATA_XML \<Rightarrow>
          (case xml2cbuf env xerr pretty of
             None \<Rightarrow> None
           | Some x \<Rightarrow>
               if pretty
               then Some (''    '' @ errors_open @ [CHR 0x0A] @ x @ ''    </errors>''
                          @ [CHR 0x0D, CHR 0x0A])
               else Some (errors_open @ x @ ''</errors>'' @ [CHR 0x0D, CHR 0x0A]))
      | YANG_DATA_JSON \<Rightarrow>
          (case xml2json env xerr pretty of
             None \<Rightarrow> None
           | Some j \<Rightarrow>
               if pretty
               then Some (''{'' @ [CHR 0x0A, CHR 0x22] @ ''ietf-restconf:errors'' @ [CHR 0x22]
                          @ '' : '' @ j @ [CHR 0x0A] @ ''}'' @ [CHR 0x0D, CHR 0x0A])
               else Some (''{'' @ [CHR 0x22] @ ''ietf-restconf:errors'' @ [CHR 0x22] @ '':''
                          @ j @ ''}'' @ [CHR 0x0D, CHR 0x0A]))
      | MEDIA_OTHER \<Rightarrow> None)"

text \<open>
  \<open>api_return_err\<close>: check the error, rename it to \<open>error\<close>, choose the status code, set the
  \<open>Content-Type\<close> header, build the body and send one reply. The result is the return
  value (0 or \<open>-1\<close>) and the request afterwards.
\<close>

definition api_return_err ::
  "rest_env \<Rightarrow> cxobj \<Rightarrow> bool \<Rightarrow> restconf_media \<Rightarrow> int \<Rightarrow> http_req \<Rightarrow> int \<times> http_req" where
  "api_return_err env xerr0 pretty media code0 req =
     (if rc_cbuf_new_fails env then (- 1, req)
      else
        (case checked_error env xerr0 of
           None \<Rightarrow> (- 1, req)
         | Some (xerr1, xtag) \<Rightarrow>
             if name_set_fails env then (- 1, req)
             else
               (let xerr = xml_name_set ''error'' xerr1;
                    code = error_code env xerr xtag code0
                in case restconf_reply_header env ''Content-Type'' (media_int2str env media) req of
                     (r1, req1) \<Rightarrow>
                       if r1 < 0 then (- 1, req1)
                       else
                         (case error_body env xerr pretty media of
                            None \<Rightarrow> (- 1, req1)
                          | Some cb \<Rightarrow>
                              (case restconf_reply_send env code (Some cb) req1 of
                                 (r2, req2) \<Rightarrow> if r2 < 0 then (- 1, req2) else (0, req2))))))"

text \<open>
  \<open>api_return_err0\<close>: the variant for an error of the form \<open><xxx><rpc-error>...\<close>.
\<close>

definition api_return_err0 ::
  "rest_env \<Rightarrow> cxobj \<Rightarrow> bool \<Rightarrow> restconf_media \<Rightarrow> int \<Rightarrow> http_req \<Rightarrow> int \<times> http_req" where
  "api_return_err0 env xerr pretty media code req =
     (case xpath_first xerr ''rpc-error'' of
        None \<Rightarrow> (- 1, req)
      | Some xe \<Rightarrow>
          (case api_return_err env xe pretty media code req of
             (r, req1) \<Rightarrow> if r < 0 then (- 1, req1) else (0, req1)))"

subsection \<open>The HTTP error functions\<close>

text \<open>\<open>restconf_unsupported_media\<close>, ``HTTP error 415 Unsupported media''.\<close>

definition restconf_unsupported_media ::
  "rest_env \<Rightarrow> bool \<Rightarrow> restconf_media \<Rightarrow> http_req \<Rightarrow> int \<times> http_req" where
  "restconf_unsupported_media env pretty media req =
     (case netconf_operation_not_supported_xml env ''protocol'' ''Unsupported Media Type'' of
        None \<Rightarrow> (- 1, req)
      | Some xerr \<Rightarrow>
          (case api_return_err0 env xerr pretty media 415 req of
             (r, req1) \<Rightarrow> if r < 0 then (- 1, req1) else (0, req1)))"

text \<open>
  \<open>restconf_not_acceptable\<close>, ``HTTP error 406 Not acceptable'': the error is reported with
  \<open>api_return_err0\<close> and the code 415, and then \<open>restconf_reply_send(req, 415, NULL)\<close> is
  called as well.
\<close>

definition restconf_not_acceptable ::
  "rest_env \<Rightarrow> bool \<Rightarrow> restconf_media \<Rightarrow> http_req \<Rightarrow> int \<times> http_req" where
  "restconf_not_acceptable env pretty media req =
     (case netconf_operation_not_supported_xml env ''protocol'' ''Unacceptable output encoding'' of
        None \<Rightarrow> (- 1, req)
      | Some xerr \<Rightarrow>
          (case api_return_err0 env xerr pretty media 415 req of
             (r1, req1) \<Rightarrow>
               if r1 < 0 then (- 1, req1)
               else
                 (case restconf_reply_send env 415 None req1 of
                    (r2, req2) \<Rightarrow> if r2 < 0 then (- 1, req2) else (0, req2))))"

text \<open>
  The branch of \<open>api_restconf\<close> (\<open>restconf_main.c\<close>) taken when \<open>clixon_plugin_auth\<close> returned
  0, not authenticated: an \<open>access-denied\<close> error with the message
  \<open>The requested URL was unauthorized\<close> is built and reported with \<open>api_return_err\<close> and code
  0. The branch ends in \<open>goto ok\<close> unless a call failed.
\<close>

definition api_restconf_unauthenticated ::
  "rest_env \<Rightarrow> bool \<Rightarrow> restconf_media \<Rightarrow> http_req \<Rightarrow> int \<times> http_req" where
  "api_restconf_unauthenticated env pretty media_out req =
     (case netconf_access_denied_xml env ''protocol'' ''The requested URL was unauthorized'' of
        None \<Rightarrow> (- 1, req)
      | Some xret \<Rightarrow>
          (case xpath_first_desc xret ''rpc-error'' of
             None \<Rightarrow> (0, req)
           | Some xerr \<Rightarrow>
               (case api_return_err env xerr pretty media_out 0 req of
                  (r, req1) \<Rightarrow> if r < 0 then (- 1, req1) else (0, req1))))"

text \<open>The body of the first \<open><error-message>\<close> of an error, if there is one.\<close>

definition error_message :: "cxobj \<Rightarrow> string option" where
  "error_message xerr =
     (case xpath_first xerr ''error-message'' of None \<Rightarrow> None | Some xmsg \<Rightarrow> xml_body xmsg)"

section \<open>The client side of the RPC channel (lib/src/clixon\_proto\_client.c)\<close>

datatype sock_family = AF_UNIX | AF_INET | AF_OTHER

text \<open>
  The client's inputs: allocation and encoding failures, the socket options of the handle,
  what the backend answers (\<open>connect_unix\<close>, \<open>connect_inet\<close>: \<open>None\<close> when the call fails,
  otherwise the returned data, itself \<open>None\<close> for \<open>NULL\<close>), the XML parser, and the library's
  \<open>xpath_first\<close> in its old two-argument form, which is handed the reply tree as it is
  (\<open>None\<close> for \<open>NULL\<close>). The implementation of these functions is missing here; what
  is proved of the client code holds for every behaviour of them.
\<close>

record client_env =
  cl_cbuf_new_fails :: bool
  msg_encode :: "string \<Rightarrow> string option"
  clicon_sock :: "string option"
  clicon_sock_family :: sock_family
  clicon_sock_port :: int
  connect_unix :: "string \<Rightarrow> string \<Rightarrow> string option option"
  connect_inet :: "string \<Rightarrow> string \<Rightarrow> int \<Rightarrow> string option option"
  xml_parse_str :: "string \<Rightarrow> cxobj option"
  xpath_first2 :: "cxobj option \<Rightarrow> string \<Rightarrow> cxobj option"
  xml_new_fails :: bool
  xml_rm_fails :: "cxobj \<Rightarrow> bool"

text \<open>
  \<open>clicon_rpc_msg\<close>: send an encoded message to the backend and parse the answer. The result
  is the return value and the tree stored through \<open>xret0\<close> (the caller's variable stays
  \<open>NULL\<close> on every failure, and also when the backend returned no data).
\<close>

definition clicon_rpc_msg :: "client_env \<Rightarrow> string \<Rightarrow> int \<times> cxobj option" where
  "clicon_rpc_msg env msg =
     (case clicon_sock env of
        None \<Rightarrow> (- 1, None)
      | Some sock \<Rightarrow>
          (case (case clicon_sock_family env of
                   AF_UNIX \<Rightarrow> connect_unix env msg sock
                 | AF_INET \<Rightarrow>
                     if clicon_sock_port env < 0 then None
                     else connect_inet env msg sock (clicon_sock_port env)
                 | AF_OTHER \<Rightarrow> Some None) of
             None \<Rightarrow> (- 1, None)
           | Some None \<Rightarrow> (0, None)
           | Some (Some retdata) \<Rightarrow>
               (case xml_parse_str env retdata of
                  None \<Rightarrow> (- 1, None)
                | Some xret \<Rightarrow> (0, Some xret))))"

text \<open>The request \<open>clicon_rpc_get_config\<close> builds for a database and an optional XPath.\<close>

definition get_config_request :: "string \<Rightarrow> string option \<Rightarrow> string" where
  "get_config_request db xpath =
     ''<rpc><get-config><source><'' @ db @ ''/></source>''
     @ (case xpath of
          None \<Rightarrow> []
        | Some p \<Rightarrow>
            if p = [] then []
            else ''<filter type='' @ [CHR 0x22] @ ''xpath'' @ [CHR 0x22] @ '' select=''
                 @ [CHR 0x22] @ p @ [CHR 0x22] @ ''/>'')
     @ ''</get-config></rpc>''"

text \<open>
  Modelled from the spec: \<open>xml_new("config", NULL)\<close> of the XML library (section 4.2, structural
  mutation): a new element without children and without a parent, or \<open>NULL\<close>.
\<close>

definition xml_new :: "client_env \<Rightarrow> string \<Rightarrow> cxobj option" where
  "xml_new env name = (if xml_new_fails env then None else Some (Elmnt name []))"

text \<open>
  \<open>clicon_rpc_get_config\<close>: the result is the return value and the tree stored through \<open>xt\<close>;
  \<open>xt_given\<close> says whether the caller passed a non-\<open>NULL\<close> \<open>xt\<close> (nothing is stored
  otherwise).
\<close>

definition clicon_rpc_get_config ::
  "client_env \<Rightarrow> string \<Rightarrow> string option \<Rightarrow> bool \<Rightarrow> int \<times> cxobj option" where
  "clicon_rpc_get_config env db xpath xt_given =
     (if cl_cbuf_new_fails env then (- 1, None)
      else
        (case msg_encode env (get_config_request db xpath) of
           None \<Rightarrow> (- 1, None)
         | Some msg \<Rightarrow>
             (case clicon_rpc_msg env msg of
                (r, xret) \<Rightarrow>
                  if r < 0 then (- 1, None)
                  else if xpath_first2 env xret ''//rpc-error'' \<noteq> None then (- 1, None)
                  else
                    (case (case xpath_first2 env xret ''//data/config'' of
                             Some xd \<Rightarrow> Some xd
                           | None \<Rightarrow> xml_new env ''config'') of
                       None \<Rightarrow> (- 1, None)
                     | Some xd \<Rightarrow>
                         if xt_given
                         then (if xml_rm_fails env xd then (- 1, None) else (0, Some xd))
                         else (0, None)))))"

subsection \<open>Concrete inputs\<close>

text \<open>
  Three configurations, a boot state holding the first as \<open>running\<close> and the second as
  \<open>failsafe\<close>, the same state without \<open>failsafe\<close>, and environments: one in which every
  call succeeds (a put appends the new tree's children, the reset hooks leave \<open>tmp\<close> as it
  is), and variants of it.
\<close>

definition cfg_a :: cxobj where
  "cfg_a = Elmnt ''config'' [Elmnt ''a'' [Elmnt ''x'' [Body ''1'']]]"

definition cfg_f :: cxobj where
  "cfg_f = Elmnt ''config'' [Elmnt ''a'' [Elmnt ''x'' [Body ''7'']]]"

definition cfg_b :: cxobj where
  "cfg_b = Elmnt ''config'' [Elmnt ''b'' [Elmnt ''y'' [Body ''2'']]]"

fun append_children :: "cxobj \<Rightarrow> cxobj \<Rightarrow> cxobj" where
  "append_children (Elmnt n cs) (Elmnt m ds) = Elmnt n (cs @ ds)"
| "append_children t u = t"

definition boot_state :: backend where
  "boot_state = \<lparr>dbs = [''running'' \<mapsto> cfg_a, ''failsafe'' \<mapsto> cfg_f], trace = [], errs = [],
                  notices = []\<rparr>"

definition boot_no_failsafe :: backend where
  "boot_no_failsafe = \<lparr>dbs = [''running'' \<mapsto> cfg_a], trace = [], errs = [], notices = []\<rparr>"

definition env_ok :: backend_env where
  "env_ok = \<lparr>cbuf_new_fails = False, exists_err = (\<lambda>_. False), create_fails = (\<lambda>_. False),
             copy_fails = (\<lambda>_ _. False), reset_fails = (\<lambda>_. False), delete_fails = (\<lambda>_. False),
             get_fails = (\<lambda>_. False), get0_fails = (\<lambda>_. False), put_res = (\<lambda>_ _. PutOk),
             ds_edit = (\<lambda>_. append_children), valid = (\<lambda>_. True), validate_err = (\<lambda>_. False),
             validate_out = Some, plugin_ok = (\<lambda>_ _. True), plugin_reset = Some,
             commit_err = (\<lambda>_. False), file_open_fails = (\<lambda>_. False),
             xml_parse_file = (\<lambda>_. None)\<rparr>"



definition env_delete_fails :: backend_env where
  "env_delete_fails = env_ok\<lparr>delete_fails := (\<lambda>_. True)\<rparr>"

definition env_hooks :: backend_env where
  "env_hooks = env_ok\<lparr>plugin_reset := (\<lambda>_. Some cfg_b)\<rparr>"

definition tmp_loaded :: backend where
  "tmp_loaded = \<lparr>dbs = [''running'' \<mapsto> cfg_a, ''failsafe'' \<mapsto> cfg_f, ''tmp'' \<mapsto> cfg_b],
                  trace = [(XmldbReset ''tmp'', 0), (PluginCb CbReset ''tmp'', 0)], errs = [],
                  notices = []\<rparr>"

text \<open>
  For the RESTCONF functions: an environment without failures (the serialisers return a
  fixed text, the tag-to-status mapping is the table above), a fresh request, and two
  \<open>access-denied\<close> errors that differ in their message only.
\<close>

definition rest_ok :: rest_env where
  "rest_ok = \<lparr>rc_cbuf_new_fails = False, netconf_xml_fails = False, name_set_fails = False,
              header_fails = False, send_fails = False, err2cb = (\<lambda>_. Some []),
              xml2cbuf = (\<lambda>_ _. Some ''<error/>''), xml2json = (\<lambda>_ _. Some ''{}''),
              media_int2str = (\<lambda>m. if m = YANG_DATA_XML then ''application/yang-data+xml''
                                    else ''application/yang-data+json''),
              err2code = restconf_err2code\<rparr>"

definition req_new :: http_req where
  "req_new = \<lparr>headers = [], replies = []\<rparr>"

definition denied_tag :: cxobj where
  "denied_tag = Elmnt ''error-tag'' [Body ''access-denied'']"

definition denied_unauthorized :: cxobj where
  "denied_unauthorized =
     Elmnt ''rpc-error''
       [Elmnt ''error-type'' [Body ''protocol''], denied_tag,
        Elmnt ''error-severity'' [Body ''error''],
        Elmnt ''error-message'' [Body ''The requested URL was unauthorized'']]"

definition denied_forbidden :: cxobj where
  "denied_forbidden =
     Elmnt ''rpc-error''
       [Elmnt ''error-type'' [Body ''protocol''], denied_tag,
        Elmnt ''error-severity'' [Body ''error''],
        Elmnt ''error-message'' [Body ''default deny'']]"

text \<open>
  For the client: a backend on a UNIX socket that answers every request with one fixed
  reply, which holds no data.
\<close>

definition client_ok :: client_env where
  "client_ok = \<lparr>cl_cbuf_new_fails = False, msg_encode = Some, clicon_sock = Some ''/sock'',
                clicon_sock_family = AF_UNIX, clicon_sock_port = 0,
                connect_unix = (\<lambda>_ _. Some (Some ''<rpc-reply><data/></rpc-reply>'')),
                connect_inet = (\<lambda>_ _ _. None),
                xml_parse_str = (\<lambda>_. Some (Elmnt ''rpc-reply'' [Elmnt ''data'' []])),
                xpath_first2 = (\<lambda>_ _. None), xml_new_fails = False,
                xml_rm_fails = (\<lambda>_. False)\<rparr>"

definition client_no_transport :: client_env where
  "client_no_transport = client_ok\<lparr>clicon_sock_family := AF_OTHER\<rparr>"

definition client_rpc_error :: client_env where
  "client_rpc_error =
     client_ok\<lparr>xpath_first2 := (\<lambda>x p. if p = ''//rpc-error'' then Some (Elmnt ''rpc-error'' [])
                                       else None)\<rparr>"

chapter \<open>Properties\<close>

section \<open>\<open>clicon_file_copy\<close>\<close>

lemma copy_loop_full:
  "(\<And>j. \<not> read_err env j) \<Longrightarrow> (\<And>j. write_res env j = WFull) \<Longrightarrow>
   copy_loop env k rest out = (True, out @ rest)"
proof (induction env k rest out rule: copy_loop.induct)
  case (1 env k rest out)
  show ?case
  proof (cases "rest = []")
    case True
    then show ?thesis by (simp add: copy_loop.simps)
  next
    case False
    have "copy_loop env k rest out = copy_loop env (Suc k) (drop 512 rest) (out @ take 512 rest)"
      using False "1.prems" by (simp add: copy_loop.simps [of env k])
    also have "\<dots> = (True, (out @ take 512 rest) @ drop 512 rest)"
      using "1.IH"(2) [OF _ False _ "1.prems"] "1.prems" by simp
    finally show ?thesis by simp
  qed
qed

lemma copy_loop_alias: "copy_loop env k [] out = (True, out)"
  by (simp add: copy_loop.simps)

text \<open>
  The loop at a failing \<open>write\<close>: when \<open>n\<close> iterations from the \<open>i\<close>-th on read and write in
  full, the next \<open>read\<close> succeeds, there is something left to read and the next \<open>write\<close>
  returns \<open>-1\<close>, the loop leaves by \<open>goto error\<close> with the first \<open>512 * n\<close> bytes written.
\<close>

lemma copy_loop_write_error:
  "(\<And>j. j < n \<Longrightarrow> \<not> read_err env (i + j) \<and> write_res env (i + j) = WFull) \<Longrightarrow>
   \<not> read_err env (i + n) \<Longrightarrow> write_res env (i + n) = WErr \<Longrightarrow> 512 * n < length rest \<Longrightarrow>
   copy_loop env i rest out = (False, out @ take (512 * n) rest)"
proof (induction n arbitrary: i rest out)
  case 0
  then show ?case by (simp add: copy_loop.simps [of env i])
next
  case (Suc n)
  have first: "\<not> read_err env i \<and> write_res env i = WFull"
    using Suc.prems(1) [of 0] by simp
  have ne: "rest \<noteq> []" using Suc.prems(4) by auto
  have step: "copy_loop env i rest out
                = copy_loop env (Suc i) (drop 512 rest) (out @ take 512 rest)"
    using first ne by (simp add: copy_loop.simps [of env i])
  have "copy_loop env (Suc i) (drop 512 rest) (out @ take 512 rest)
          = (False, (out @ take 512 rest) @ take (512 * n) (drop 512 rest))"
  proof (rule Suc.IH)
    fix j assume "j < n"
    then show "\<not> read_err env (Suc i + j) \<and> write_res env (Suc i + j) = WFull"
      using Suc.prems(1) [of "Suc j"] by simp
  next
    show "\<not> read_err env (Suc i + n)" using Suc.prems(2) by simp
    show "write_res env (Suc i + n) = WErr" using Suc.prems(3) by simp
    show "512 * n < length (drop 512 rest)" using Suc.prems(4) by simp
  qed
  moreover have "take 512 rest @ take (512 * n) (drop 512 rest) = take (512 * Suc n) rest"
    by (simp add: take_add)
  ultimately show ?case using step by simp
qed

text \<open>
  C1 (as stated, refuted). The claim says that on any failure, a write error partway
  through included, the target's content is what it was before the call. The target is
  opened with \<open>O_TRUNC\<close> before the first byte is copied, so a failing \<open>write\<close> leaves it
  truncated: copying \<open>a\<close> (holding \<open>new\<close>) onto \<open>b\<close> (holding \<open>old\<close>) when the first \<open>write\<close>
  returns \<open>-1\<close> fails and leaves \<open>b\<close> empty.
\<close>

theorem clicon_file_copy_not_atomic:
  "fst (clicon_file_copy os_write_fails ''a'' ''b'' fs_two) = - 1 \<and>
   node_at (snd (clicon_file_copy os_write_fails ''a'' ''b'' fs_two)) (slot_of fs_two ''b'')
     = Some (Regular []) \<and>
   node_at fs_two (slot_of fs_two ''b'') = Some (Regular ''old'')"
  by (simp add: clicon_file_copy_def os_write_fails_def os_ok_def fs_two_def copy_loop.simps)

text \<open>
  C1 (amended). What \<open>clicon_file_copy\<close> does:
  \<^item> it returns \<open>0\<close> or \<open>-1\<close>, and changes no file but the one the target path names;
  \<^item> when the source does not exist or cannot be \<open>stat\<close>ed or opened for reading, or the
    target cannot be opened for writing (it is denied, or the target is a directory), it
    returns \<open>-1\<close> and nothing is changed;
  \<^item> when the source is a regular file, source and target name different files, every open
    succeeds, no \<open>read\<close> fails and every \<open>write\<close> is complete, it returns \<open>0\<close> and the target
    holds the source's content;
  \<^item> when, with the same source, target and opens, the first \<open>n\<close> reads succeed and the
    first \<open>n\<close> writes are complete, the next \<open>read\<close> succeeds, the source has more than
    \<open>512 * n\<close> bytes and the next \<open>write\<close> returns \<open>-1\<close>, it returns \<open>-1\<close> and the target
    holds exactly the first \<open>512 * n\<close> bytes of the source, whatever it held before.
\<close>

theorem clicon_file_copy_amended:
  "clicon_file_copy env src target fs = (r, fs') \<Longrightarrow>
     (r = 0 \<or> r = - 1) \<and> slot_of fs' = slot_of fs \<and>
     (\<forall>k. k \<noteq> slot_of fs target \<longrightarrow> node_at fs' k = node_at fs k) \<and>
     (node_at fs (slot_of fs src) = None \<or> stat_denied env src \<or> rd_denied env src \<or>
      wr_denied env target \<or> node_at fs (slot_of fs target) = Some Directory
        \<longrightarrow> r = - 1 \<and> fs' = fs) \<and>
     (node_at fs (slot_of fs src) = Some (Regular bytes) \<and>
      slot_of fs src \<noteq> slot_of fs target \<and>
      \<not> stat_denied env src \<and> \<not> rd_denied env src \<and> \<not> wr_denied env target \<and>
      node_at fs (slot_of fs target) \<noteq> Some Directory \<and>
      (\<forall>k. \<not> read_err env k) \<and> (\<forall>k. write_res env k = WFull)
        \<longrightarrow> r = 0 \<and> node_at fs' (slot_of fs target) = Some (Regular bytes)) \<and>
     (node_at fs (slot_of fs src) = Some (Regular bytes) \<and>
      slot_of fs src \<noteq> slot_of fs target \<and>
      \<not> stat_denied env src \<and> \<not> rd_denied env src \<and> \<not> wr_denied env target \<and>
      node_at fs (slot_of fs target) \<noteq> Some Directory \<and>
      (\<forall>j. j < n \<longrightarrow> \<not> read_err env j \<and> write_res env j = WFull) \<and>
      \<not> read_err env n \<and> write_res env n = WErr \<and> 512 * n < length bytes
        \<longrightarrow> r = - 1 \<and> node_at fs' (slot_of fs target) = Some (Regular (take (512 * n) bytes)))"
proof -
  assume run: "clicon_file_copy env src target fs = (r, fs')"
  let ?early = "node_at fs (slot_of fs src) = None \<or> stat_denied env src \<or> rd_denied env src \<or>
      wr_denied env target \<or> node_at fs (slot_of fs target) = Some Directory"
  show ?thesis
  proof (cases ?early)
    case True
    then have "clicon_file_copy env src target fs = (- 1, fs)"
      by (auto simp: clicon_file_copy_def)
    with run have "r = - 1" "fs' = fs" by simp_all
    with True show ?thesis by auto
  next
    case False
    define opened where "opened = (node_at fs)(slot_of fs target \<mapsto> Regular [])"
    obtain ok out where loop: "copy_from env (opened (slot_of fs src)) = (ok, out)"
      by (cases "copy_from env (opened (slot_of fs src))")
    have "clicon_file_copy env src target fs
            = ((if ok then 0 else - 1),
               fs\<lparr>node_at := opened(slot_of fs target \<mapsto> Regular out)\<rparr>)"
      using False loop by (auto simp: clicon_file_copy_def Let_def opened_def)
    with run have r: "r = (if ok then 0 else - 1)"
      and fs': "fs' = fs\<lparr>node_at := opened(slot_of fs target \<mapsto> Regular out)\<rparr>"
      by simp_all
    have c1: "(r = 0 \<or> r = - 1) \<and> slot_of fs' = slot_of fs" using r fs' by simp
    have c2: "\<forall>k. k \<noteq> slot_of fs target \<longrightarrow> node_at fs' k = node_at fs k"
      using fs' by (simp add: opened_def)
    have tgt: "node_at fs' (slot_of fs target) = Some (Regular out)" using fs' by simp
    have c4: "node_at fs (slot_of fs src) = Some (Regular bytes) \<and>
              slot_of fs src \<noteq> slot_of fs target \<and>
              (\<forall>k. \<not> read_err env k) \<and> (\<forall>k. write_res env k = WFull)
                \<longrightarrow> r = 0 \<and> node_at fs' (slot_of fs target) = Some (Regular bytes)"
    proof
      assume h: "node_at fs (slot_of fs src) = Some (Regular bytes) \<and>
              slot_of fs src \<noteq> slot_of fs target \<and>
              (\<forall>k. \<not> read_err env k) \<and> (\<forall>k. write_res env k = WFull)"
      then have "opened (slot_of fs src) = Some (Regular bytes)" by (simp add: opened_def)
      moreover from h have "copy_loop env 0 bytes [] = (True, [] @ bytes)"
        by (intro copy_loop_full) auto
      ultimately have "ok" "out = bytes" using loop by simp_all
      with r tgt show "r = 0 \<and> node_at fs' (slot_of fs target) = Some (Regular bytes)" by simp
    qed
    have c5: "node_at fs (slot_of fs src) = Some (Regular bytes) \<and>
              slot_of fs src \<noteq> slot_of fs target \<and>
              (\<forall>j. j < n \<longrightarrow> \<not> read_err env j \<and> write_res env j = WFull) \<and>
              \<not> read_err env n \<and> write_res env n = WErr \<and> 512 * n < length bytes
                \<longrightarrow> r = - 1 \<and>
                    node_at fs' (slot_of fs target) = Some (Regular (take (512 * n) bytes))"
    proof
      assume h: "node_at fs (slot_of fs src) = Some (Regular bytes) \<and>
              slot_of fs src \<noteq> slot_of fs target \<and>
              (\<forall>j. j < n \<longrightarrow> \<not> read_err env j \<and> write_res env j = WFull) \<and>
              \<not> read_err env n \<and> write_res env n = WErr \<and> 512 * n < length bytes"
      then have "opened (slot_of fs src) = Some (Regular bytes)" by (simp add: opened_def)
      moreover from h have "copy_loop env 0 bytes [] = (False, [] @ take (512 * n) bytes)"
        by (intro copy_loop_write_error) auto
      ultimately have "\<not> ok" "out = take (512 * n) bytes" using loop by simp_all
      with r tgt show "r = - 1 \<and>
          node_at fs' (slot_of fs target) = Some (Regular (take (512 * n) bytes))" by simp
    qed
    from False c1 c2 c4 c5 show ?thesis by blast
  qed
qed

theorem clicon_file_copy_amended_witness:
  "clicon_file_copy os_ok ''a'' ''b'' fs_two
     = (0, fs_two\<lparr>node_at := (node_at fs_two)(1 \<mapsto> Regular ''new'')\<rparr>) \<and>
   node_at fs_two (slot_of fs_two ''a'') = Some (Regular ''new'') \<and>
   slot_of fs_two ''a'' \<noteq> slot_of fs_two ''b'' \<and>
   clicon_file_copy os_write_fails ''a'' ''b'' fs_two
     = (- 1, fs_two\<lparr>node_at := (node_at fs_two)(1 \<mapsto> Regular [])\<rparr>) \<and>
   write_res os_write_fails 0 = WErr \<and> 512 * 0 < length ''new''"
  using clicon_file_copy_amended
      [of os_ok "''a''" "''b''" fs_two 0
          "fs_two\<lparr>node_at := (node_at fs_two)(1 \<mapsto> Regular ''new'')\<rparr>" "''new''" 0]
    clicon_file_copy_amended
      [of os_write_fails "''a''" "''b''" fs_two "- 1"
          "fs_two\<lparr>node_at := (node_at fs_two)(1 \<mapsto> Regular [])\<rparr>" "''new''" 0]
  by (simp add: clicon_file_copy_def os_write_fails_def os_ok_def fs_two_def copy_loop.simps)

text \<open>
  Three more facts about \<open>clicon_file_copy\<close>. Copying a file onto itself, under the same
  path or under another path of the same file, succeeds and leaves the file empty: the
  target is truncated before the source is read.
\<close>

theorem clicon_file_copy_onto_itself:
  "node_at fs (slot_of fs src) = Some (Regular bytes) \<Longrightarrow> slot_of fs src = slot_of fs target \<Longrightarrow>
   \<not> stat_denied env src \<Longrightarrow> \<not> rd_denied env src \<Longrightarrow> \<not> wr_denied env target \<Longrightarrow>
     clicon_file_copy env src target fs
       = (0, fs\<lparr>node_at := (node_at fs)(slot_of fs target \<mapsto> Regular [])\<rparr>)"
  by (simp add: clicon_file_copy_def copy_loop_alias)

theorem clicon_file_copy_onto_itself_witness:
  "node_at fs_two (slot_of fs_two ''a'') = Some (Regular ''new'') \<and>
   slot_of fs_two ''a'' = slot_of fs_two ''./a'' \<and>
   \<not> stat_denied os_ok ''a'' \<and> \<not> rd_denied os_ok ''a'' \<and> \<not> wr_denied os_ok ''./a'' \<and>
   clicon_file_copy os_ok ''a'' ''./a'' fs_two
     = (0, fs_two\<lparr>node_at := (node_at fs_two)(0 \<mapsto> Regular [])\<rparr>)"
  using clicon_file_copy_onto_itself [of fs_two "''a''" "''new''" "''./a''" os_ok]
  by (simp add: os_ok_def fs_two_def)

text \<open>
  A \<open>read\<close> that fails is taken for the end of the file: when the first \<open>read\<close> returns \<open>-1\<close>
  the call still returns 0, and the target is left empty. This is what happens when the
  source is a directory.
\<close>

theorem clicon_file_copy_read_error:
  "node_at fs (slot_of fs src) = Some nd \<Longrightarrow> slot_of fs src \<noteq> slot_of fs target \<Longrightarrow>
   \<not> stat_denied env src \<Longrightarrow> \<not> rd_denied env src \<Longrightarrow> \<not> wr_denied env target \<Longrightarrow>
   node_at fs (slot_of fs target) \<noteq> Some Directory \<Longrightarrow> read_err env 0 \<or> nd = Directory \<Longrightarrow>
     clicon_file_copy env src target fs
       = (0, fs\<lparr>node_at := (node_at fs)(slot_of fs target \<mapsto> Regular [])\<rparr>)"
  by (cases nd) (auto simp: clicon_file_copy_def copy_loop.simps [of env 0])

theorem clicon_file_copy_read_error_witness:
  "node_at fs_two (slot_of fs_two ''d'') = Some Directory \<and>
   slot_of fs_two ''d'' \<noteq> slot_of fs_two ''b'' \<and>
   node_at fs_two (slot_of fs_two ''b'') \<noteq> Some Directory \<and>
   clicon_file_copy os_ok ''d'' ''b'' fs_two
     = (0, fs_two\<lparr>node_at := (node_at fs_two)(1 \<mapsto> Regular [])\<rparr>) \<and>
   read_err os_read_fails 0 \<and>
   clicon_file_copy os_read_fails ''a'' ''b'' fs_two
     = (0, fs_two\<lparr>node_at := (node_at fs_two)(1 \<mapsto> Regular [])\<rparr>)"
  using clicon_file_copy_read_error [of fs_two "''d''" Directory "''b''" os_ok]
    clicon_file_copy_read_error [of fs_two "''a''" "Regular ''new''" "''b''" os_read_fails]
  by (simp add: os_read_fails_def os_ok_def fs_two_def)

section \<open>The backend state: basic facts\<close>

lemma called_simps [simp]:
  "dbs (called c r s) = dbs s"
  "trace (called c r s) = trace s @ [(c, r)]"
  "errs (called c r s) = errs s"
  "notices (called c r s) = notices s"
  by (simp_all add: called_def)

lemma clicon_err_simps [simp]:
  "dbs (clicon_err cat msg s) = dbs s"
  "trace (clicon_err cat msg s) = trace s"
  "errs (clicon_err cat msg s) = errs s @ [(cat, msg)]"
  "notices (clicon_err cat msg s) = notices s"
  by (simp_all add: clicon_err_def)

lemma clicon_log_notice_simps [simp]:
  "dbs (clicon_log_notice msg s) = dbs s"
  "trace (clicon_log_notice msg s) = trace s"
  "errs (clicon_log_notice msg s) = errs s"
  "notices (clicon_log_notice msg s) = notices s @ [msg]"
  by (simp_all add: clicon_log_notice_def)

lemma db_content_called [simp]: "db_content (called c r s) db = db_content s db"
  by (simp add: db_content_def)

section \<open>The commit engine\<close>

text \<open>
  What the callers of the commit engine rely on: it returns 1, 0 or \<open>-1\<close>; its own calls are
  engine calls; on 1 the source exists and \<open>running\<close> holds its content, every other
  database being as before; otherwise no database has changed.
\<close>

lemma txe_commit_cases:
  assumes "txe_commit env src s = (r, s')"
  shows "(r = 1 \<or> r = 0 \<or> r = - 1) \<and>
         errs s' = errs s \<and> notices s' = notices s \<and>
         (\<exists>evs. trace s' = trace s @ evs \<and> (\<forall>e \<in> set evs. engine_call (fst e))) \<and>
         (r = 1 \<longrightarrow> dbs s src \<noteq> None \<and> dbs s' = (dbs s)(''running'' := dbs s src)) \<and>
         (r \<noteq> 1 \<longrightarrow> dbs s' = dbs s)"
  using assms
  by (auto simp: txe_commit_def Let_def split: option.splits if_splits)

lemma candidate_commit_cases:
  assumes "candidate_commit env src s = (r, s')"
  shows "(r = 1 \<or> r = 0 \<or> r = - 1) \<and>
         errs s' = errs s \<and> notices s' = notices s \<and>
         (\<exists>evs. trace s' = trace s @ evs @ [(CandidateCommit src, r)] \<and>
                (\<forall>e \<in> set evs. engine_call (fst e))) \<and>
         (r = 1 \<longrightarrow> dbs s src \<noteq> None \<and> dbs s' = (dbs s)(''running'' := dbs s src)) \<and>
         (r \<noteq> 1 \<longrightarrow> dbs s' = dbs s)"
proof -
  obtain s1 where t: "txe_commit env src s = (r, s1)"
    and s': "s' = called (CandidateCommit src) r s1"
    using assms by (auto simp: candidate_commit_def split: prod.splits)
  from txe_commit_cases [OF t] s' show ?thesis by auto
qed

lemma startup_commit_cases:
  assumes "startup_commit env src s = (r, s')"
  shows "(r = 1 \<or> r = 0 \<or> r = - 1) \<and>
         errs s' = errs s \<and> notices s' = notices s \<and>
         (\<exists>evs. trace s' = trace s @ evs @ [(StartupCommit src, r)] \<and>
                (\<forall>e \<in> set evs. engine_call (fst e))) \<and>
         (r = 1 \<longrightarrow> dbs s src \<noteq> None \<and> dbs s' = (dbs s)(''running'' := dbs s src)) \<and>
         (r \<noteq> 1 \<longrightarrow> dbs s' = dbs s)"
proof -
  obtain s1 where t: "txe_commit env src s = (r, s1)"
    and s': "s' = called (StartupCommit src) r s1"
    using assms by (auto simp: startup_commit_def split: prod.splits)
  from txe_commit_cases [OF t] s' show ?thesis by auto
qed

lemma engine_calls_no_commit:
  "\<forall>e \<in> set evs. engine_call (fst e) \<Longrightarrow> ((CandidateCommit x, r) \<in> set evs) = False"
  by force

section \<open>\<open>startup_failsafe\<close>\<close>

lemma xmldb_exists_run:
  "xmldb_exists env db s = (r, s') \<Longrightarrow>
     s' = called (XmldbExists db) r s \<and> (r = 1 \<or> r = 0 \<or> r = - 1)"
  by (auto simp: xmldb_exists_def Let_def split: if_splits)

lemma xmldb_copy_run:
  "xmldb_copy env src dst s = (r, s') \<Longrightarrow>
     trace s' = trace s @ [(XmldbCopy src dst, r)] \<and> (r = 0 \<or> r = - 1)"
  by (auto simp: xmldb_copy_def split: option.splits if_splits)

lemma xmldb_db_reset_run:
  "xmldb_db_reset env db s = (r, s') \<Longrightarrow>
     trace s' = trace s @ [(XmldbReset db, r)] \<and> (r = 0 \<or> r = - 1)"
  by (auto simp: xmldb_db_reset_def split: if_splits)

text \<open>
  The control flow of \<open>startup_failsafe\<close> around the commit, whatever the commit does: if a
  run has called \<open>candidate_commit\<close>, it called it on \<open>failsafe\<close> in the state
  \<open>failsafe_commit_state\<close>; if the commit returned 1 the result is 0 and the databases are
  those the commit left; otherwise the result is \<open>-1\<close> and the databases are those the
  copy of \<open>tmp\<close> onto \<open>running\<close> left.
\<close>

lemma startup_failsafe_after_commit:
  assumes run: "startup_failsafe env s = (r, s')"
    and mem: "(CandidateCommit x, ret) \<in> set (new_calls s s')"
  shows "\<exists>s4. candidate_commit env ''failsafe'' (failsafe_commit_state env s) = (ret, s4) \<and>
           x = ''failsafe'' \<and>
           (ret = 1 \<longrightarrow> r = 0 \<and> dbs s' = dbs s4) \<and>
           (ret \<noteq> 1 \<longrightarrow> r = - 1 \<and>
              dbs s' = dbs (snd (xmldb_copy env ''tmp'' ''running'' s4)))"
proof -
  obtain r0 s1 where e: "xmldb_exists env ''failsafe'' s = (r0, s1)"
    by (cases "xmldb_exists env ''failsafe'' s")
  obtain r2 s2 where c: "xmldb_copy env ''running'' ''tmp'' s1 = (r2, s2)"
    by (cases "xmldb_copy env ''running'' ''tmp'' s1")
  obtain r3 s3 where d: "xmldb_db_reset env ''running'' s2 = (r3, s3)"
    by (cases "xmldb_db_reset env ''running'' s2")
  obtain ret' s4 where cc: "candidate_commit env ''failsafe'' s3 = (ret', s4)"
    by (cases "candidate_commit env ''failsafe'' s3")
  obtain r5 s5 where b: "xmldb_copy env ''tmp'' ''running'' s4 = (r5, s5)"
    by (cases "xmldb_copy env ''tmp'' ''running'' s4")
  have s3: "failsafe_commit_state env s = s3"
    using e c d by (simp add: failsafe_commit_state_def)
  note te = xmldb_exists_run [OF e] and tc = xmldb_copy_run [OF c]
    and td = xmldb_db_reset_run [OF d] and tb = xmldb_copy_run [OF b]
  from candidate_commit_cases [OF cc] obtain evs where
    t4: "trace s4 = trace s3 @ evs @ [(CandidateCommit ''failsafe'', ret')]"
    and evs: "\<forall>e \<in> set evs. engine_call (fst e)"
    and rr: "ret' = 1 \<or> ret' = 0 \<or> ret' = - 1" by blast
  have nocc: "(CandidateCommit x, ret) \<notin> set evs"
    using evs by (simp add: engine_calls_no_commit)
  have reach: "\<not> cbuf_new_fails env \<and> r0 = 1 \<and> r2 = 0 \<and> r3 = 0"
    using run mem e c d te tc td
    by (auto simp: startup_failsafe_def new_calls_def split: if_splits)
  have fin: "(r, s') = (if ret' = 1
               then (0, clicon_log_notice ''Startup failed, Failsafe database loaded '' s4)
               else if r5 < 0 then (- 1, s5)
               else if ret' < 0 then (- 1, s5)
               else (- 1, clicon_err OE_DB
                       ''Startup failed, Failsafe database validation failed %s'' s5))"
    using run reach e c d cc b rr
    by (auto simp: startup_failsafe_def split: if_splits)
  have tr: "trace s' = trace s @ [(XmldbExists ''failsafe'', 1), (XmldbCopy ''running'' ''tmp'', 0),
                (XmldbReset ''running'', 0)] @ evs @ [(CandidateCommit ''failsafe'', ret')]
              @ (if ret' = 1 then [] else [(XmldbCopy ''tmp'' ''running'', r5)])"
    using fin reach te tc td tb t4 by (auto split: if_splits)
  from mem tr nocc have same: "x = ''failsafe'' \<and> ret = ret'"
    by (auto simp: new_calls_def split: if_splits)
  from fin same cc s3 b show ?thesis
    by (auto split: if_splits)
qed

text \<open>
  C2. If the failsafe database exists and the commit of \<open>failsafe\<close> into \<open>running\<close> made by
  \<open>startup_failsafe\<close> returned 1 (success), then \<open>startup_failsafe\<close> returns 0 and \<open>running\<close>
  holds the content of \<open>failsafe\<close> (which is itself unchanged).
\<close>

theorem startup_failsafe_commits_failsafe:
  assumes run: "startup_failsafe env s = (r, s')"
    and ex: "dbs s ''failsafe'' = Some f"
    and mem: "(CandidateCommit ''failsafe'', 1) \<in> set (new_calls s s')"
  shows "r = 0 \<and> dbs s' ''running'' = Some f \<and> dbs s' ''failsafe'' = Some f"
  using assms
  by (auto simp: startup_failsafe_def xmldb_exists_def xmldb_copy_def xmldb_db_reset_def
        new_calls_def Let_def engine_calls_no_commit
      split: if_splits option.splits prod.splits dest!: candidate_commit_cases)

theorem startup_failsafe_commits_failsafe_witness:
  "dbs boot_state ''failsafe'' = Some cfg_f \<and>
   (CandidateCommit ''failsafe'', 1)
      \<in> set (new_calls boot_state (snd (startup_failsafe env_ok boot_state))) \<and>
   fst (startup_failsafe env_ok boot_state) = 0 \<and>
   dbs (snd (startup_failsafe env_ok boot_state)) ''running'' = Some cfg_f"
  using startup_failsafe_commits_failsafe
    [of env_ok boot_state "fst (startup_failsafe env_ok boot_state)"
        "snd (startup_failsafe env_ok boot_state)" cfg_f]
  by (simp add: startup_failsafe_def xmldb_exists_def xmldb_copy_def xmldb_db_reset_def
        candidate_commit_def txe_commit_def new_calls_def Let_def env_ok_def boot_state_def
        cfg_a_def cfg_f_def empty_config_def)

text \<open>
  C3. If the failsafe database does not exist, \<open>startup_failsafe\<close> returns \<open>-1\<close>, no database
  has changed, and the only call it made, if any, is \<open>xmldb_exists\<close> on \<open>failsafe\<close>: no
  copy, no reset, no commit.
\<close>

theorem startup_failsafe_without_failsafe:
  assumes run: "startup_failsafe env s = (r, s')"
    and nex: "dbs s ''failsafe'' = None"
  shows "r = - 1 \<and> dbs s' = dbs s \<and>
         (new_calls s s' = [] \<or> new_calls s s' = [(XmldbExists ''failsafe'', 0)]
            \<or> new_calls s s' = [(XmldbExists ''failsafe'', - 1)])"
  using assms
  by (auto simp: startup_failsafe_def xmldb_exists_def new_calls_def Let_def split: if_splits)

theorem startup_failsafe_without_failsafe_witness:
  "dbs boot_no_failsafe ''failsafe'' = None \<and>
   fst (startup_failsafe env_ok boot_no_failsafe) = - 1 \<and>
   dbs (snd (startup_failsafe env_ok boot_no_failsafe)) = dbs boot_no_failsafe \<and>
   new_calls boot_no_failsafe (snd (startup_failsafe env_ok boot_no_failsafe))
     = [(XmldbExists ''failsafe'', 0)]"
  using startup_failsafe_without_failsafe
    [of env_ok boot_no_failsafe "fst (startup_failsafe env_ok boot_no_failsafe)"
        "snd (startup_failsafe env_ok boot_no_failsafe)"]
  by (simp add: startup_failsafe_def xmldb_exists_def new_calls_def Let_def env_ok_def
        boot_no_failsafe_def)




section \<open>\<open>startup_mode_startup\<close>\<close>

text \<open>
  C6. Called with the name \<open>running\<close>, \<open>startup_mode_startup\<close> returns \<open>-1\<close> after raising an
  error of category \<open>OE_FATAL\<close>, having made no call at all (no \<open>xmldb_exists\<close>, no
  \<open>xmldb_create\<close>, no commit) and changed no database. Called with any other name it raises
  no error of its own and goes on to the datastore: its first call is \<open>xmldb_exists\<close> on
  that name.
\<close>

theorem startup_mode_startup_rejects_running:
  "startup_mode_startup env db s = (r, s') \<Longrightarrow>
     (db = ''running'' \<longrightarrow>
        r = - 1 \<and> errs s' = errs s @ [(OE_FATAL, ''Invalid startup db: %s'')] \<and>
        new_calls s s' = [] \<and> dbs s' = dbs s) \<and>
     (db \<noteq> ''running'' \<longrightarrow>
        errs s' = errs s \<and> (\<exists>r1 evs. new_calls s s' = (XmldbExists db, r1) # evs))"
  by (auto simp: startup_mode_startup_def xmldb_exists_def xmldb_create_def
        new_calls_def Let_def
      split: if_splits option.splits prod.splits dest!: startup_commit_cases)

theorem startup_mode_startup_rejects_running_witness:
  "fst (startup_mode_startup env_ok ''running'' boot_state) = - 1 \<and>
   errs (snd (startup_mode_startup env_ok ''running'' boot_state))
     = [(OE_FATAL, ''Invalid startup db: %s'')] \<and>
   new_calls boot_state (snd (startup_mode_startup env_ok ''running'' boot_state)) = [] \<and>
   fst (startup_mode_startup env_ok ''failsafe'' boot_state) = 1 \<and>
   errs (snd (startup_mode_startup env_ok ''failsafe'' boot_state)) = [] \<and>
   hd (new_calls boot_state (snd (startup_mode_startup env_ok ''failsafe'' boot_state)))
     = (XmldbExists ''failsafe'', 1)"
  using startup_mode_startup_rejects_running
    [of env_ok "''running''" boot_state "fst (startup_mode_startup env_ok ''running'' boot_state)"
        "snd (startup_mode_startup env_ok ''running'' boot_state)"]
    startup_mode_startup_rejects_running
    [of env_ok "''failsafe''" boot_state
        "fst (startup_mode_startup env_ok ''failsafe'' boot_state)"
        "snd (startup_mode_startup env_ok ''failsafe'' boot_state)"]
  by (simp add: startup_mode_startup_def xmldb_exists_def startup_commit_def txe_commit_def
        new_calls_def Let_def env_ok_def boot_state_def cfg_a_def cfg_f_def)

section \<open>\<open>startup_extraxml\<close>\<close>

subsection \<open>No call of \<open>startup_extraxml\<close> is a commit callback\<close>

lemma quiet_refl: "quiet s s"
  by (simp add: quiet_def)

lemma quiet_trans: "quiet s s1 \<Longrightarrow> quiet s1 s2 \<Longrightarrow> quiet s s2"
  by (auto simp: quiet_def)

lemma quiet_called: "trace s' = trace s @ [(c, r)] \<Longrightarrow> \<not> commit_callback c \<Longrightarrow> quiet s s'"
  by (simp add: quiet_def)

lemma quiet_clicon_err: "quiet s (clicon_err cat msg s)"
  by (simp add: quiet_def)

lemma quiet_new_calls: "quiet s s' \<Longrightarrow> \<forall>e \<in> set (new_calls s s'). \<not> commit_callback (fst e)"
  by (auto simp: quiet_def new_calls_def)

lemma xmldb_db_reset_quiet: "xmldb_db_reset env db s = (r, s') \<Longrightarrow> quiet s s'"
  by (auto simp: xmldb_db_reset_def intro!: quiet_called split: if_splits)

lemma clixon_plugin_reset_quiet: "clixon_plugin_reset env db s = (r, s') \<Longrightarrow> quiet s s'"
  by (auto simp: clixon_plugin_reset_def intro!: quiet_called split: option.splits)

lemma xmldb_put_quiet: "xmldb_put env db op xt s = (r, s') \<Longrightarrow> quiet s s'"
  by (auto simp: xmldb_put_def intro!: quiet_called split: put_outcome.splits)

lemma xmldb_get_quiet: "xmldb_get env db s = (r, xt, s') \<Longrightarrow> quiet s s'"
  by (auto simp: xmldb_get_def intro!: quiet_called split: if_splits)

lemma xmldb_get0_quiet: "xmldb_get0 env db s = (r, xt, s') \<Longrightarrow> quiet s s'"
  by (auto simp: xmldb_get0_def intro!: quiet_called split: if_splits)

lemma xmldb_delete_quiet: "xmldb_delete env db s = (d, s') \<Longrightarrow> quiet s s'"
  by (auto simp: xmldb_delete_def intro!: quiet_called split: if_splits)

lemma startup_validate_quiet: "startup_validate env db s = (r, xt, s') \<Longrightarrow> quiet s s'"
  by (auto simp: startup_validate_def quiet_def split: if_splits)

lemma load_extraxml_quiet: "load_extraxml env f db s = (r, s') \<Longrightarrow> quiet s s'"
  by (auto simp: load_extraxml_def quiet_refl quiet_clicon_err
      split: option.splits if_splits dest: xmldb_put_quiet)

lemma db_merge_quiet: "db_merge env db1 db2 s = (r, s') \<Longrightarrow> quiet s s'"
  by (auto simp: db_merge_def split: prod.splits if_splits
      dest!: xmldb_get0_quiet xmldb_put_quiet intro: quiet_trans)

lemma extraxml_load_quiet: "extraxml_load env file s = (r, s') \<Longrightarrow> quiet s s'"
  by (auto simp: extraxml_load_def split: prod.splits if_splits option.splits
      dest!: xmldb_db_reset_quiet clixon_plugin_reset_quiet load_extraxml_quiet
      intro: quiet_trans)

lemma extraxml_merge_quiet: "extraxml_merge env s = (r, s') \<Longrightarrow> quiet s s'"
  by (auto simp: extraxml_merge_def split: prod.splits if_splits
      dest!: xmldb_get_quiet startup_validate_quiet db_merge_quiet intro: quiet_trans)

lemma startup_extraxml_quiet: "startup_extraxml env file s = (r, s') \<Longrightarrow> quiet s s'"
  by (auto simp: startup_extraxml_def startup_extraxml_body_def split: prod.splits if_splits
      dest!: extraxml_load_quiet extraxml_merge_quiet xmldb_delete_quiet intro: quiet_trans)

subsection \<open>After the load: the empty and the non-empty \<open>tmp\<close>\<close>

lemma extraxml_load_tmp: "extraxml_load env file s = (1, s3) \<Longrightarrow> dbs s3 ''tmp'' \<noteq> None"
  by (auto simp: extraxml_load_def xmldb_db_reset_def clixon_plugin_reset_def load_extraxml_def
        xmldb_put_def
      split: prod.splits if_splits option.splits put_outcome.splits)

lemma startup_extraxml_after_load:
  "extraxml_load env file s = (1, s3) \<Longrightarrow>
   startup_extraxml env file s =
     (case extraxml_merge env s3 of
        (retval, s1) \<Rightarrow>
          (case xmldb_delete env ''tmp'' s1 of
             (d, s2) \<Rightarrow> if d = DelErr then (- 1, s2) else (retval, s2)))"
  by (simp add: startup_extraxml_def startup_extraxml_body_def)

lemma startup_extraxml_empty_tmp:
  assumes run: "startup_extraxml env file s = (r, s')"
    and load: "extraxml_load env file s = (1, s3)"
    and rd: "\<not> get_fails env ''tmp''"
    and em: "xml_child_nr (db_content s3 ''tmp'') = 0"
  shows "new_calls s3 s' =
           [(XmldbGet ''tmp'', 0),
            (XmldbDelete ''tmp'', if delete_fails env ''tmp'' then - 1 else 0)] \<and>
         r = (if delete_fails env ''tmp'' then - 1 else 1)"
  using run rd em extraxml_load_tmp [OF load]
  unfolding startup_extraxml_after_load [OF load]
  by (auto simp: extraxml_merge_def xmldb_get_def xmldb_delete_def new_calls_def
      split: if_splits)

lemma startup_extraxml_nonempty_tmp:
  assumes run: "startup_extraxml env file s = (r, s')"
    and load: "extraxml_load env file s = (1, s3)"
    and rd: "\<not> get_fails env ''tmp''"
    and ne: "xml_child_nr (db_content s3 ''tmp'') \<noteq> 0"
  shows "(\<exists>rv. (StartupValidate ''tmp'', rv) \<in> set (new_calls s3 s')) \<and>
         (validate_err env ''tmp'' \<or> \<not> valid env (db_content s3 ''tmp'') \<or>
          xml_is_empty (validate_out env (db_content s3 ''tmp''))
          \<longrightarrow> (\<forall>e \<in> set (new_calls s3 s'). \<forall>op x. fst e \<noteq> XmldbPut ''running'' op x)) \<and>
         (\<not> validate_err env ''tmp'' \<and> valid env (db_content s3 ''tmp'') \<and>
          \<not> xml_is_empty (validate_out env (db_content s3 ''tmp'')) \<and> get0_fails env ''tmp''
          \<longrightarrow> new_calls s3 s' =
                  [(XmldbGet ''tmp'', 0), (Validator ''tmp'', 1), (StartupValidate ''tmp'', 1),
                   (XmldbGet0 ''tmp'', - 1),
                   (XmldbDelete ''tmp'', if delete_fails env ''tmp'' then - 1 else 0)] \<and>
               r = (if delete_fails env ''tmp'' then - 1 else 0)) \<and>
         (\<not> validate_err env ''tmp'' \<and> valid env (db_content s3 ''tmp'') \<and>
          \<not> xml_is_empty (validate_out env (db_content s3 ''tmp'')) \<and> \<not> get0_fails env ''tmp''
          \<longrightarrow> (\<exists>rp. rp = put_code (put_res env ''running'' (db_content s3 ''tmp'')) \<and>
                new_calls s3 s' =
                  [(XmldbGet ''tmp'', 0), (Validator ''tmp'', 1), (StartupValidate ''tmp'', 1),
                   (XmldbGet0 ''tmp'', 0),
                   (XmldbPut ''running'' OP_MERGE (db_content s3 ''tmp''), rp),
                   (XmldbDelete ''tmp'', if delete_fails env ''tmp'' then - 1 else 0)] \<and>
                r = (if delete_fails env ''tmp'' then - 1 else if rp = 1 then 1 else 0) \<and>
                (rp = 1 \<longrightarrow> dbs s' ''running'' =
                    Some (ds_edit env OP_MERGE (db_content s3 ''running'')
                            (db_content s3 ''tmp'')))))"
  using run rd ne extraxml_load_tmp [OF load]
  unfolding startup_extraxml_after_load [OF load]
  by (auto simp: extraxml_merge_def xmldb_get_def xmldb_delete_def new_calls_def
         startup_validate_def db_merge_def xmldb_get0_def xmldb_put_def db_content_def
      split: if_splits put_outcome.splits)

text \<open>
  C5 (as stated, refuted). The claim ends: if \<open>tmp\<close> is empty after the reset hooks, the
  validation and the merge are skipped and success is returned. They are skipped, but the
  value returned is decided at the label \<open>done\<close>: when the closing \<open>xmldb_delete\<close> of \<open>tmp\<close>
  fails (with an \<open>errno\<close> other than \<open>ENOENT\<close>) \<open>startup_extraxml\<close> returns \<open>-1\<close>. Here no file
  is given, the reset hooks leave \<open>tmp\<close> empty, only the reset, the hooks, the read and the
  delete are called, and the result is \<open>-1\<close>.
\<close>

theorem startup_extraxml_delete_fails:
  "db_content (snd (extraxml_load env_delete_fails None boot_state)) ''tmp'' = empty_config \<and>
   fst (startup_extraxml env_delete_fails None boot_state) = - 1 \<and>
   new_calls boot_state (snd (startup_extraxml env_delete_fails None boot_state)) =
     [(XmldbReset ''tmp'', 0), (PluginCb CbReset ''tmp'', 0), (XmldbGet ''tmp'', 0),
      (XmldbDelete ''tmp'', - 1)]"
  by (simp add: startup_extraxml_def startup_extraxml_body_def extraxml_load_def
        extraxml_merge_def xmldb_db_reset_def clixon_plugin_reset_def xmldb_get_def
        xmldb_delete_def new_calls_def db_content_def env_delete_fails_def env_ok_def
        boot_state_def empty_config_def)

text \<open>
  C5 (amended). No call made by \<open>startup_extraxml\<close> is a plugin callback of a commit phase
  or an entry into the commit engine. Once the reset, the reset hooks and the optional file
  load have succeeded, leaving the state \<open>s3\<close>, and given that the read of \<open>tmp\<close>
  (\<open>xmldb_get\<close>) succeeds:
  \<^item> if \<open>tmp\<close> has no children, the only calls that follow are the read and the closing
    delete of \<open>tmp\<close> (no validation, no merge), and the result is 1, or \<open>-1\<close> when the delete
    fails;
  \<^item> if \<open>tmp\<close> has children, \<open>startup_validate\<close> is called on \<open>tmp\<close>. If it ends in an error
    or a validation failure, or hands back a tree without children, nothing is put into
    \<open>running\<close>. If it finds \<open>tmp\<close> valid and hands back a tree with children, \<open>db_merge\<close> is
    called: when its read of \<open>tmp\<close> (\<open>xmldb_get0\<close>) fails, nothing is put and the result
    is 0; otherwise the content of \<open>tmp\<close> is put into \<open>running\<close> with \<open>OP_MERGE\<close>, the result
    is 1 if the put returns 1 (and \<open>running\<close> then holds the merge) and 0 otherwise. In both
    cases the closing delete of \<open>tmp\<close> is the last call, and the result is \<open>-1\<close> instead when
    it fails.
\<close>

theorem startup_extraxml_amended:
  assumes run: "startup_extraxml env file s = (r, s')"
  shows "(\<forall>e \<in> set (new_calls s s'). \<not> commit_callback (fst e)) \<and>
    (extraxml_load env file s = (1, s3) \<and> \<not> get_fails env ''tmp'' \<longrightarrow>
       (xml_child_nr (db_content s3 ''tmp'') = 0 \<longrightarrow>
          new_calls s3 s' =
            [(XmldbGet ''tmp'', 0),
             (XmldbDelete ''tmp'', if delete_fails env ''tmp'' then - 1 else 0)] \<and>
          r = (if delete_fails env ''tmp'' then - 1 else 1)) \<and>
       (xml_child_nr (db_content s3 ''tmp'') \<noteq> 0 \<longrightarrow>
          (\<exists>rv. (StartupValidate ''tmp'', rv) \<in> set (new_calls s3 s')) \<and>
          (validate_err env ''tmp'' \<or> \<not> valid env (db_content s3 ''tmp'') \<or>
           xml_is_empty (validate_out env (db_content s3 ''tmp''))
           \<longrightarrow> (\<forall>e \<in> set (new_calls s3 s'). \<forall>op x. fst e \<noteq> XmldbPut ''running'' op x)) \<and>
          (\<not> validate_err env ''tmp'' \<and> valid env (db_content s3 ''tmp'') \<and>
           \<not> xml_is_empty (validate_out env (db_content s3 ''tmp'')) \<and> get0_fails env ''tmp''
           \<longrightarrow> new_calls s3 s' =
                  [(XmldbGet ''tmp'', 0), (Validator ''tmp'', 1), (StartupValidate ''tmp'', 1),
                   (XmldbGet0 ''tmp'', - 1),
                   (XmldbDelete ''tmp'', if delete_fails env ''tmp'' then - 1 else 0)] \<and>
                r = (if delete_fails env ''tmp'' then - 1 else 0)) \<and>
          (\<not> validate_err env ''tmp'' \<and> valid env (db_content s3 ''tmp'') \<and>
           \<not> xml_is_empty (validate_out env (db_content s3 ''tmp'')) \<and>
           \<not> get0_fails env ''tmp''
           \<longrightarrow> (\<exists>rp. rp = put_code (put_res env ''running'' (db_content s3 ''tmp'')) \<and>
                 new_calls s3 s' =
                   [(XmldbGet ''tmp'', 0), (Validator ''tmp'', 1), (StartupValidate ''tmp'', 1),
                    (XmldbGet0 ''tmp'', 0),
                    (XmldbPut ''running'' OP_MERGE (db_content s3 ''tmp''), rp),
                    (XmldbDelete ''tmp'', if delete_fails env ''tmp'' then - 1 else 0)] \<and>
                 r = (if delete_fails env ''tmp'' then - 1 else if rp = 1 then 1 else 0) \<and>
                 (rp = 1 \<longrightarrow> dbs s' ''running'' =
                     Some (ds_edit env OP_MERGE (db_content s3 ''running'')
                             (db_content s3 ''tmp'')))))))"
proof -
  have a: "\<forall>e \<in> set (new_calls s s'). \<not> commit_callback (fst e)"
    using startup_extraxml_quiet [OF run] by (rule quiet_new_calls)
  show ?thesis
  proof (cases "extraxml_load env file s = (1, s3) \<and> \<not> get_fails env ''tmp''")
    case False
    with a show ?thesis by blast
  next
    case True
    then have load: "extraxml_load env file s = (1, s3)" and rd: "\<not> get_fails env ''tmp''"
      by simp_all
    show ?thesis
    proof (cases "xml_child_nr (db_content s3 ''tmp'') = 0")
      case True
      from startup_extraxml_empty_tmp [OF run load rd True] a True show ?thesis by simp
    next
      case False
      from startup_extraxml_nonempty_tmp [OF run load rd False] a False show ?thesis by simp
    qed
  qed
qed

theorem startup_extraxml_amended_witness:
  "extraxml_load env_hooks None boot_state = (1, tmp_loaded) \<and>
   \<not> get_fails env_hooks ''tmp'' \<and>
   xml_child_nr (db_content tmp_loaded ''tmp'') \<noteq> 0 \<and>
   fst (startup_extraxml env_hooks None boot_state) = 1 \<and>
   new_calls tmp_loaded (snd (startup_extraxml env_hooks None boot_state)) =
     [(XmldbGet ''tmp'', 0), (Validator ''tmp'', 1), (StartupValidate ''tmp'', 1),
      (XmldbGet0 ''tmp'', 0), (XmldbPut ''running'' OP_MERGE cfg_b, 1),
      (XmldbDelete ''tmp'', 0)] \<and>
   dbs (snd (startup_extraxml env_hooks None boot_state)) ''running'' =
     Some (Elmnt ''config'' [Elmnt ''a'' [Elmnt ''x'' [Body ''1'']],
                             Elmnt ''b'' [Elmnt ''y'' [Body ''2'']]])"
  using startup_extraxml_amended
    [of env_hooks None boot_state "fst (startup_extraxml env_hooks None boot_state)"
        "snd (startup_extraxml env_hooks None boot_state)" tmp_loaded]
  by (simp add: startup_extraxml_def startup_extraxml_body_def extraxml_load_def
        extraxml_merge_def xmldb_db_reset_def clixon_plugin_reset_def xmldb_get_def
        xmldb_get0_def xmldb_put_def db_merge_def startup_validate_def
        xmldb_delete_def new_calls_def db_content_def env_hooks_def env_ok_def
        boot_state_def tmp_loaded_def empty_config_def cfg_a_def cfg_b_def cfg_f_def)

section \<open>RESTCONF error replies\<close>

lemma xpath_first_name_set [simp]: "xpath_first (xml_name_set n x) name = xpath_first x name"
  by (cases x) (simp_all add: xpath_first_def)

lemma restconf_reply_send_replies:
  "restconf_reply_send env code body req = (r, req') \<Longrightarrow>
     (r = - 1 \<and> req' = req) \<or> (r = 0 \<and> replies req' = replies req @ [(code, body)])"
  by (auto simp: restconf_reply_send_def split: if_splits)

text \<open>
  When \<open>api_return_err\<close> returns 0 it has sent exactly one reply, with the status code of
  \<open>error_code\<close> and a body; when it returns \<open>-1\<close> it has sent none.
\<close>

lemma api_return_err_replies:
  assumes "api_return_err env xerr0 pretty media code0 req = (r, req')"
  shows "(r = - 1 \<and> replies req' = replies req) \<or>
         (r = 0 \<and> (\<exists>xerr1 xtag cb. checked_error env xerr0 = Some (xerr1, xtag) \<and>
            replies req' = replies req @
              [(error_code env (xml_name_set ''error'' xerr1) xtag code0, Some cb)]))"
  using assms
  by (auto simp: api_return_err_def restconf_reply_header_def restconf_reply_send_def Let_def
      split: if_splits option.splits prod.splits)

lemma error_code_given: "code0 \<noteq> 0 \<Longrightarrow> error_code env xerr xtag code0 = code0"
  by (simp add: error_code_def)

lemma api_return_err0_replies:
  assumes "api_return_err0 env xerr pretty media code req = (r, req')" and "code \<noteq> 0"
  shows "(r = - 1 \<and> replies req' = replies req) \<or>
         (r = 0 \<and> (\<exists>cb. replies req' = replies req @ [(code, Some cb)]))"
proof (cases "xpath_first xerr ''rpc-error''")
  case None
  with assms show ?thesis by (simp add: api_return_err0_def)
next
  case (Some xe)
  obtain r1 req1 where a: "api_return_err env xe pretty media code req = (r1, req1)"
    by (cases "api_return_err env xe pretty media code req")
  with assms Some have r: "r = (if r1 < 0 then - 1 else 0)" and req': "req' = req1"
    by (auto simp: api_return_err0_def split: if_splits)
  from api_return_err_replies [OF a] r req' assms(2) show ?thesis
    by (auto simp: error_code_given)
qed

text \<open>
  The sibling \<open>restconf_unsupported_media\<close> sends one reply, with the status 415 its comment
  names.
\<close>

lemma restconf_unsupported_media_replies:
  assumes "restconf_unsupported_media env pretty media req = (r, req')"
  shows "(r = - 1 \<and> replies req' = replies req) \<or>
         (r = 0 \<and> (\<exists>cb. replies req' = replies req @ [(415, Some cb)]))"
proof (cases "netconf_operation_not_supported_xml env ''protocol'' ''Unsupported Media Type''")
  case None
  with assms show ?thesis by (simp add: restconf_unsupported_media_def)
next
  case (Some xerr)
  obtain r1 req1 where a: "api_return_err0 env xerr pretty media 415 req = (r1, req1)"
    by (cases "api_return_err0 env xerr pretty media 415 req")
  with assms Some have "r = (if r1 < 0 then - 1 else 0)" "req' = req1"
    by (auto simp: restconf_unsupported_media_def split: if_splits)
  with api_return_err0_replies [OF a] show ?thesis by auto
qed

text \<open>
  \<open>restconf_not_acceptable\<close>, for every request and environment: when it returns 0 it has
  sent two replies, both with status 415; it never sends a reply with status 406.
\<close>

lemma restconf_not_acceptable_replies:
  assumes "restconf_not_acceptable env pretty media req = (r, req')"
  shows "(r = 0 \<longrightarrow> (\<exists>cb. replies req' = replies req @ [(415, Some cb), (415, None)])) \<and>
         (r \<noteq> 0 \<longrightarrow> replies req' = replies req \<or>
                     (\<exists>cb. replies req' = replies req @ [(415, Some cb)]))"
proof (cases "netconf_operation_not_supported_xml env ''protocol'' ''Unacceptable output encoding''")
  case None
  with assms show ?thesis by (simp add: restconf_not_acceptable_def)
next
  case (Some xerr)
  obtain r1 req1 where a: "api_return_err0 env xerr pretty media 415 req = (r1, req1)"
    by (cases "api_return_err0 env xerr pretty media 415 req")
  obtain r2 req2 where b: "restconf_reply_send env 415 None req1 = (r2, req2)"
    by (cases "restconf_reply_send env 415 None req1")
  from assms Some a b have res: "(r, req') = (if r1 < 0 then (- 1, req1)
                                    else if r2 < 0 then (- 1, req2) else (0, req2))"
    by (auto simp: restconf_not_acceptable_def split: if_splits)
  from api_return_err0_replies [OF a] restconf_reply_send_replies [OF b] res
  show ?thesis by (auto split: if_splits)
qed

text \<open>
  With a status code given (not 0), \<open>api_return_err\<close> sends, when it returns 0, exactly one
  reply, with that status.
\<close>

theorem api_return_err_given_code:
  "code0 \<noteq> 0 \<Longrightarrow> api_return_err env xerr pretty media code0 req = (0, req') \<Longrightarrow>
     \<exists>cb. replies req' = replies req @ [(code0, Some cb)]"
  using api_return_err_replies [of env xerr pretty media code0 req 0 req']
  by (auto simp: error_code_given)

theorem api_return_err_given_code_witness:
  "(501 :: int) \<noteq> 0 \<and>
   fst (api_return_err rest_ok denied_forbidden False YANG_DATA_XML 501 req_new) = 0 \<and>
   replies (snd (api_return_err rest_ok denied_forbidden False YANG_DATA_XML 501 req_new))
     = [(501, Some (errors_open @ ''<error/></errors>'' @ [CHR 0x0D, CHR 0x0A]))]"
  using api_return_err_given_code
    [of 501 rest_ok denied_forbidden False YANG_DATA_XML req_new
        "snd (api_return_err rest_ok denied_forbidden False YANG_DATA_XML 501 req_new)"]
  by (simp add: api_return_err_def checked_error_def xpath_first_def error_code_def
        error_body_def restconf_reply_header_def restconf_reply_send_def rest_ok_def
        req_new_def Let_def denied_forbidden_def denied_tag_def)

text \<open>
  \<open>restconf_unsupported_media\<close> (``HTTP error 415 Unsupported media'') sends, when it returns
  0, exactly one reply, with status 415.
\<close>

theorem restconf_unsupported_media_one_reply:
  "restconf_unsupported_media env pretty media req = (0, req') \<Longrightarrow>
     \<exists>cb. replies req' = replies req @ [(415, Some cb)]"
  using restconf_unsupported_media_replies [of env pretty media req 0 req'] by auto

theorem restconf_unsupported_media_one_reply_witness:
  "fst (restconf_unsupported_media rest_ok False YANG_DATA_JSON req_new) = 0 \<and>
   map fst (replies (snd (restconf_unsupported_media rest_ok False YANG_DATA_JSON req_new)))
     = [415]"
  using restconf_unsupported_media_one_reply
    [of rest_ok False YANG_DATA_JSON req_new
        "snd (restconf_unsupported_media rest_ok False YANG_DATA_JSON req_new)"]
  by (simp add: restconf_unsupported_media_def netconf_operation_not_supported_xml_def
        netconf_rpc_error_def api_return_err0_def api_return_err_def checked_error_def
        xpath_first_def error_code_def error_body_def restconf_reply_header_def
        restconf_reply_send_def rest_ok_def req_new_def Let_def)

text \<open>
  C8 (the code does not do what the claim and the function's own comment say). A request
  whose output encoding is not acceptable, answered in a healthy environment:
  \<open>restconf_not_acceptable\<close> returns 0 having sent two replies, both with status 415, and
  none with status 406.
\<close>

theorem restconf_not_acceptable_sends_two_415:
  "fst (restconf_not_acceptable rest_ok False YANG_DATA_JSON req_new) = 0 \<and>
   map fst (replies (snd (restconf_not_acceptable rest_ok False YANG_DATA_JSON req_new)))
     = [415, 415] \<and>
   map snd (replies (snd (restconf_not_acceptable rest_ok False YANG_DATA_JSON req_new)))
     = [Some (''{'' @ [CHR 0x22] @ ''ietf-restconf:errors'' @ [CHR 0x22] @ '':{}}''
              @ [CHR 0x0D, CHR 0x0A]), None]"
  by (simp add: restconf_not_acceptable_def netconf_operation_not_supported_xml_def
        netconf_rpc_error_def api_return_err0_def api_return_err_def checked_error_def
        xpath_first_def error_code_def error_body_def restconf_reply_header_def
        restconf_reply_send_def rest_ok_def req_new_def Let_def)

text \<open>
  C10. When \<open>api_return_err\<close> is called with code 0 on an \<open><rpc-error>\<close> whose tag maps to
  403 and sends its reply, the status is 401 if the body of the error's \<open><error-message>\<close>
  is exactly \<open>The requested URL was unauthorized\<close> and 403 otherwise (another message, no
  message, a message without text). And the unauthenticated branch of \<open>api_restconf\<close>, when
  it sends its reply and \<open>access-denied\<close> maps to 403, sends the status 401.
\<close>

theorem api_return_err_unauthorized:
  "(xml_name xerr = ''rpc-error'' \<and> xpath_first xerr ''error-tag'' = Some xtag \<and>
    err2code env (xml_body xtag) = 403 \<and>
    api_return_err env xerr pretty media 0 req = (0, req')
    \<longrightarrow> (\<exists>cb. replies req' = replies req @
            [(if error_message xerr = Some unauthorized_msg then 401 else 403, Some cb)])) \<and>
   (err2code env (Some ''access-denied'') = 403 \<and>
    api_restconf_unauthenticated env pretty media req = (0, req'')
    \<longrightarrow> (\<exists>cb. replies req'' = replies req @ [(401, Some cb)]))"
proof (intro conjI impI)
  assume h: "xml_name xerr = ''rpc-error'' \<and> xpath_first xerr ''error-tag'' = Some xtag \<and>
    err2code env (xml_body xtag) = 403 \<and>
    api_return_err env xerr pretty media 0 req = (0, req')"
  then have chk: "checked_error env xerr = Some (xerr, xtag)"
    by (simp add: checked_error_def)
  have code: "error_code env (xml_name_set ''error'' xerr) xtag 0
                = (if error_message xerr = Some unauthorized_msg then 401 else 403)"
    using h by (simp add: error_code_def error_message_def split: option.splits)
  from h have "api_return_err env xerr pretty media 0 req = (0, req')" by simp
  from api_return_err_replies [OF this] chk code
  show "\<exists>cb. replies req' = replies req @
            [(if error_message xerr = Some unauthorized_msg then 401 else 403, Some cb)]"
    by auto
next
  assume h: "err2code env (Some ''access-denied'') = 403 \<and>
    api_restconf_unauthenticated env pretty media req = (0, req'')"
  let ?xerr = "Elmnt ''rpc-error''
          [Elmnt ''error-type'' [Body ''protocol''],
           Elmnt ''error-tag'' [Body ''access-denied''],
           Elmnt ''error-severity'' [Body ''error''],
           Elmnt ''error-message'' [Body ''The requested URL was unauthorized'']]"
  let ?xtag = "Elmnt ''error-tag'' [Body ''access-denied'']"
  have chk: "checked_error env ?xerr = Some (?xerr, ?xtag)"
    by (simp add: checked_error_def xpath_first_def)
  have code: "error_code env (xml_name_set ''error'' ?xerr) ?xtag 0 = 401"
    using h by (simp add: error_code_def xpath_first_def xml_body_def unauthorized_msg_def)
  show "\<exists>cb. replies req'' = replies req @ [(401, Some cb)]"
  proof (cases "netconf_xml_fails env")
    case True
    with h show ?thesis
      by (simp add: api_restconf_unauthenticated_def netconf_access_denied_xml_def)
  next
    case False
    obtain r1 req1 where a: "api_return_err env ?xerr pretty media 0 req = (r1, req1)"
      by (cases "api_return_err env ?xerr pretty media 0 req")
    with h False have "\<not> r1 < 0" "req1 = req''"
      by (auto simp: api_restconf_unauthenticated_def netconf_access_denied_xml_def
            netconf_rpc_error_def xpath_first_desc_def split: if_splits)
    with api_return_err_replies [OF a] chk code show ?thesis by auto
  qed
qed

theorem api_return_err_unauthorized_witness:
  "xml_name denied_unauthorized = ''rpc-error'' \<and>
   xpath_first denied_unauthorized ''error-tag'' = Some denied_tag \<and>
   err2code rest_ok (xml_body denied_tag) = 403 \<and>
   fst (api_return_err rest_ok denied_unauthorized False YANG_DATA_JSON 0 req_new) = 0 \<and>
   map fst (replies (snd (api_return_err rest_ok denied_unauthorized False YANG_DATA_JSON 0
                            req_new))) = [401] \<and>
   xpath_first denied_forbidden ''error-tag'' = Some denied_tag \<and>
   fst (api_return_err rest_ok denied_forbidden False YANG_DATA_JSON 0 req_new) = 0 \<and>
   map fst (replies (snd (api_return_err rest_ok denied_forbidden False YANG_DATA_JSON 0
                            req_new))) = [403] \<and>
   fst (api_restconf_unauthenticated rest_ok False YANG_DATA_JSON req_new) = 0 \<and>
   map fst (replies (snd (api_restconf_unauthenticated rest_ok False YANG_DATA_JSON req_new)))
     = [401]"
  using api_return_err_unauthorized
    [of denied_unauthorized denied_tag rest_ok False YANG_DATA_JSON req_new
        "snd (api_return_err rest_ok denied_unauthorized False YANG_DATA_JSON 0 req_new)"
        "snd (api_restconf_unauthenticated rest_ok False YANG_DATA_JSON req_new)"]
  by (simp add: api_restconf_unauthenticated_def netconf_access_denied_xml_def
        netconf_rpc_error_def xpath_first_desc_def api_return_err_def checked_error_def
        xpath_first_def xml_body_def error_code_def error_body_def restconf_reply_header_def
        restconf_reply_send_def restconf_err2code_def rest_ok_def req_new_def Let_def
        denied_unauthorized_def denied_forbidden_def denied_tag_def unauthorized_msg_def)

section \<open>\<open>clicon_rpc_get_config\<close>\<close>

text \<open>
  C9. When \<open>clicon_rpc_get_config\<close>, given a place to store the tree, returns 0, a tree has
  been stored (never \<open>NULL\<close>); and when the backend's reply has no \<open>//data/config\<close> subtree,
  that tree is a new \<open>config\<close> element without children.
\<close>

theorem clicon_rpc_get_config_tree:
  assumes "clicon_rpc_get_config env db xpath True = (0, t)"
  shows "t \<noteq> None \<and>
         (\<forall>msg xret. msg_encode env (get_config_request db xpath) = Some msg \<and>
             snd (clicon_rpc_msg env msg) = xret \<and>
             xpath_first2 env xret ''//data/config'' = None
             \<longrightarrow> t = Some (Elmnt ''config'' []))"
  using assms
  by (auto simp: clicon_rpc_get_config_def xml_new_def
      split: if_splits option.splits prod.splits)

theorem clicon_rpc_get_config_tree_witness:
  "clicon_rpc_get_config client_ok ''running'' (Some ''/'') True = (0, Some (Elmnt ''config'' [])) \<and>
   msg_encode client_ok (get_config_request ''running'' (Some ''/''))
     = Some (get_config_request ''running'' (Some ''/'')) \<and>
   xpath_first2 client_ok
      (snd (clicon_rpc_msg client_ok (get_config_request ''running'' (Some ''/''))))
      ''//data/config'' = None"
  using clicon_rpc_get_config_tree
    [of client_ok "''running''" "Some ''/''" "Some (Elmnt ''config'' [])"]
  by (simp add: clicon_rpc_get_config_def clicon_rpc_msg_def xml_new_def client_ok_def)

text \<open>
  When the backend's reply holds an \<open>rpc-error\<close>, \<open>clicon_rpc_get_config\<close> returns \<open>-1\<close> and
  stores no tree.
\<close>

theorem clicon_rpc_get_config_rpc_error:
  "msg_encode env (get_config_request db xpath) = Some msg \<Longrightarrow>
   xpath_first2 env (snd (clicon_rpc_msg env msg)) ''//rpc-error'' \<noteq> None \<Longrightarrow>
     clicon_rpc_get_config env db xpath given = (- 1, None)"
  by (auto simp: clicon_rpc_get_config_def split: prod.splits)

theorem clicon_rpc_get_config_rpc_error_witness:
  "msg_encode client_rpc_error (get_config_request ''running'' None)
     = Some (get_config_request ''running'' None) \<and>
   xpath_first2 client_rpc_error
     (snd (clicon_rpc_msg client_rpc_error (get_config_request ''running'' None)))
     ''//rpc-error'' \<noteq> None \<and>
   clicon_rpc_get_config client_rpc_error ''running'' None True = (- 1, None)"
  using clicon_rpc_get_config_rpc_error
    [of client_rpc_error "''running''" None "get_config_request ''running'' None" True]
  by (simp add: client_rpc_error_def client_ok_def)

text \<open>
  \<open>clicon_rpc_msg\<close> with a socket family that is neither \<open>AF_UNIX\<close> nor \<open>AF_INET\<close>: the
  \<open>switch\<close> has no case for it, nothing is sent, and the call returns 0 with no tree.
\<close>

theorem clicon_rpc_msg_no_transport:
  "clicon_sock env = Some sock \<Longrightarrow> clicon_sock_family env = AF_OTHER \<Longrightarrow>
     clicon_rpc_msg env msg = (0, None)"
  by (simp add: clicon_rpc_msg_def)

theorem clicon_rpc_msg_no_transport_witness:
  "clicon_sock client_no_transport = Some ''/sock'' \<and>
   clicon_sock_family client_no_transport = AF_OTHER \<and>
   clicon_rpc_msg client_no_transport ''<rpc/>'' = (0, None)"
  using clicon_rpc_msg_no_transport [of client_no_transport "''/sock''" "''<rpc/>''"]
  by (simp add: client_no_transport_def client_ok_def)

end
